theory Spec2Isabelle
  imports Main
begin

section \<open>Strings\<close>

text \<open>
  Python strings are modelled as \<open>string\<close>. The non-ASCII literals of the source are
  written as their UTF-8 bytes; the separator \<open>:\<close> is a single byte that never occurs
  inside a multi-byte UTF-8 sequence, so searching and splitting on it agree with Python.
\<close>

definition py_in :: "char \<Rightarrow> string \<Rightarrow> bool" where
  \<comment> \<open>\<open>c in s\<close> for a one-character needle\<close>
  "py_in c s = (c \<in> set s)"

definition py_split1 :: "char \<Rightarrow> string \<Rightarrow> string list" where
  \<comment> \<open>\<open>s.split(sep, 1)\<close> for a one-character separator: at most one cut, at the first \<open>sep\<close>\<close>
  "py_split1 sep s =
     (if sep \<in> set s
      then [takeWhile (\<lambda>c. c \<noteq> sep) s, tl (dropWhile (\<lambda>c. c \<noteq> sep) s)]
      else [s])"

section \<open>Origin encoding of subagent announcements\<close>

record origin =
  origin_channel :: string
  origin_chat_id :: string

definition announce_chat_id :: "origin \<Rightarrow> string" where
  \<comment> \<open>\<open>SubagentManager._announce_result\<close>: \<open>f"{origin['channel']}:{origin['chat_id']}"\<close>\<close>
  "announce_chat_id og = origin_channel og @ '':'' @ origin_chat_id og"

definition parse_origin :: "string \<Rightarrow> origin" where
  \<comment> \<open>\<open>AgentLoop._process_system_message\<close>, lines 283-291\<close>
  "parse_origin chat_id =
     (if py_in CHR '':'' chat_id
      then (let parts = py_split1 CHR '':'' chat_id
            in \<lparr>origin_channel = parts ! 0, origin_chat_id = parts ! 1\<rparr>)
      else \<lparr>origin_channel = ''cli'', origin_chat_id = chat_id\<rparr>)"

section \<open>Exceptions\<close>

text \<open>
  A Python \<open>Exception\<close> is a value carrying the text \<open>str(e)\<close>. A call that may raise
  returns \<open>exc + 'a\<close>, with \<open>Inl\<close> for the raise.
\<close>

datatype exc = Exception string

fun str_exc :: "exc \<Rightarrow> string" where
  "str_exc (Exception s) = s"

section \<open>Bus events (\<open>bus/events.py\<close>)\<close>

text \<open>The \<open>timestamp\<close> and \<open>metadata\<close> fields are never read by the code modelled here and are left out.\<close>

record InboundMessage =
  in_channel :: string
  in_sender_id :: string
  in_chat_id :: string
  in_content :: string
  in_media :: "string list"

definition session_key :: "InboundMessage \<Rightarrow> string" where
  "session_key msg = in_channel msg @ '':'' @ in_chat_id msg"

record OutboundMessage =
  out_channel :: string
  out_chat_id :: string
  out_content :: string
  out_reply_to :: "string option"
  out_media :: "string list"

definition mk_outbound :: "string \<Rightarrow> string \<Rightarrow> string \<Rightarrow> OutboundMessage" where
  \<comment> \<open>\<open>OutboundMessage(channel=..., chat_id=..., content=...)\<close> with the dataclass defaults\<close>
  "mk_outbound ch cid c =
     \<lparr>out_channel = ch, out_chat_id = cid, out_content = c, out_reply_to = None, out_media = []\<rparr>"

section \<open>Message bus (\<open>bus/queue.py\<close>)\<close>

text \<open>
  The two \<open>asyncio.Queue\<close>s are FIFO lists. A subscriber callback is an identifier
  \<open>'cb\<close>; what it does when awaited is given by a table
  \<open>call :: 'cb \<Rightarrow> OutboundMessage \<Rightarrow> 'w \<Rightarrow> exc option \<times> 'w\<close> acting on the outside world
  \<open>'w\<close>, with \<open>Some e\<close> when the callback raises \<open>e\<close>.
\<close>

record 'cb MessageBus =
  inbound :: "InboundMessage list"
  outbound :: "OutboundMessage list"
  outbound_subscribers :: "string \<rightharpoonup> 'cb list"
  bus_running :: bool

definition MessageBus_init :: "'cb MessageBus" where
  "MessageBus_init = \<lparr>inbound = [], outbound = [], outbound_subscribers = Map.empty, bus_running = False\<rparr>"

definition publish_inbound :: "InboundMessage \<Rightarrow> 'cb MessageBus \<Rightarrow> 'cb MessageBus" where
  "publish_inbound msg bus = bus\<lparr>inbound := inbound bus @ [msg]\<rparr>"

definition publish_outbound :: "OutboundMessage \<Rightarrow> 'cb MessageBus \<Rightarrow> 'cb MessageBus" where
  "publish_outbound msg bus = bus\<lparr>outbound := outbound bus @ [msg]\<rparr>"

definition publish_all_outbound :: "OutboundMessage list \<Rightarrow> 'cb MessageBus \<Rightarrow> 'cb MessageBus" where
  \<comment> \<open>one \<open>publish_outbound\<close> after the other\<close>
  "publish_all_outbound msgs bus = foldl (\<lambda>b msg. publish_outbound msg b) bus msgs"

definition subscribe_outbound :: "string \<Rightarrow> 'cb \<Rightarrow> 'cb MessageBus \<Rightarrow> 'cb MessageBus" where
  "subscribe_outbound channel callback bus =
     (let subs = outbound_subscribers bus;
          subs1 = (if channel \<notin> dom subs then subs(channel \<mapsto> []) else subs)
      in bus\<lparr>outbound_subscribers := subs1(channel \<mapsto> the (subs1 channel) @ [callback])\<rparr>)"

fun subscribe_all :: "(string \<times> 'cb) list \<Rightarrow> 'cb MessageBus \<Rightarrow> 'cb MessageBus" where
  \<comment> \<open>a sequence of \<open>subscribe_outbound\<close> calls, in the order made\<close>
  "subscribe_all [] bus = bus"
| "subscribe_all ((channel, callback) # rest) bus = subscribe_all rest (subscribe_outbound channel callback bus)"

record ('cb, 'w) dispatch_state =
  ds_world :: 'w
  ds_invoked :: "('cb \<times> OutboundMessage) list"  \<comment> \<open>every \<open>await callback(msg)\<close>, in order\<close>
  ds_logged :: "exc list"  \<comment> \<open>every \<open>logger.error\<close> of the inner handler\<close>

fun deliver ::
  "('cb \<Rightarrow> OutboundMessage \<Rightarrow> 'w \<Rightarrow> exc option \<times> 'w) \<Rightarrow> OutboundMessage \<Rightarrow> 'cb list
     \<Rightarrow> ('cb, 'w) dispatch_state \<Rightarrow> ('cb, 'w) dispatch_state" where
  \<comment> \<open>\<open>for callback in subscribers: try: await callback(msg) except Exception as e: logger.error(...)\<close>\<close>
  "deliver call msg [] st = st"
| "deliver call msg (callback # rest) st =
     (case call callback msg (ds_world st) of
        (None, w) \<Rightarrow>
          deliver call msg rest (st\<lparr>ds_world := w, ds_invoked := ds_invoked st @ [(callback, msg)]\<rparr>)
      | (Some e, w) \<Rightarrow>
          deliver call msg rest
            (st\<lparr>ds_world := w, ds_invoked := ds_invoked st @ [(callback, msg)],
                ds_logged := ds_logged st @ [e]\<rparr>))"

definition subscribers_get :: "'cb MessageBus \<Rightarrow> string \<Rightarrow> 'cb list" where
  \<comment> \<open>\<open>self._outbound_subscribers.get(msg.channel, [])\<close>\<close>
  "subscribers_get bus channel =
     (case outbound_subscribers bus channel of None \<Rightarrow> [] | Some cbs \<Rightarrow> cbs)"

definition dispatch_message ::
  "('cb \<Rightarrow> OutboundMessage \<Rightarrow> 'w \<Rightarrow> exc option \<times> 'w) \<Rightarrow> 'cb MessageBus \<Rightarrow> OutboundMessage
     \<Rightarrow> ('cb, 'w) dispatch_state \<Rightarrow> ('cb, 'w) dispatch_state" where
  \<comment> \<open>the body of the \<open>dispatch_outbound\<close> loop once a message has been taken from the queue\<close>
  "dispatch_message call bus msg st = deliver call msg (subscribers_get bus (out_channel msg)) st"

fun dispatch_outbound ::
  "('cb \<Rightarrow> OutboundMessage \<Rightarrow> 'w \<Rightarrow> exc option \<times> 'w) \<Rightarrow> nat \<Rightarrow> 'cb MessageBus
     \<Rightarrow> ('cb, 'w) dispatch_state \<Rightarrow> 'cb MessageBus \<times> ('cb, 'w) dispatch_state" where
  \<comment> \<open>\<open>n\<close> iterations of \<open>while self._running\<close>: the iterations made before \<open>stop()\<close> is
      observed. An empty queue is the \<open>asyncio.TimeoutError\<close> branch (\<open>continue\<close>).\<close>
  "dispatch_outbound call 0 bus st = (bus, st)"
| "dispatch_outbound call (Suc n) bus st =
     (case outbound bus of
        [] \<Rightarrow> dispatch_outbound call n bus st
      | msg # rest \<Rightarrow>
          dispatch_outbound call n (bus\<lparr>outbound := rest\<rparr>) (dispatch_message call bus msg st))"

definition dispatch_init :: "'w \<Rightarrow> ('cb, 'w) dispatch_state" where
  "dispatch_init w = \<lparr>ds_world = w, ds_invoked = [], ds_logged = []\<rparr>"

text \<open>
  What the dispatch is expected to do, said without the loop. \<open>awaits_of bus msgs\<close> lists
  the awaits that are due: for each message in queue order, every subscriber of its channel
  in registration order. \<open>world_after\<close> is the world once a list of awaits has been made
  one after the other, and \<open>raised_by\<close> collects, in order, the exception of every await
  that raised, each callback being awaited on the world its predecessors left.
\<close>

definition awaits_of :: "'cb MessageBus \<Rightarrow> OutboundMessage list \<Rightarrow> ('cb \<times> OutboundMessage) list" where
  "awaits_of bus msgs =
     concat (map (\<lambda>m. map (\<lambda>cb. (cb, m)) (subscribers_get bus (out_channel m))) msgs)"

definition world_after ::
  "('cb \<Rightarrow> OutboundMessage \<Rightarrow> 'w \<Rightarrow> exc option \<times> 'w) \<Rightarrow> 'w \<Rightarrow> ('cb \<times> OutboundMessage) list \<Rightarrow> 'w" where
  "world_after call w awaits = foldl (\<lambda>w1 (cb, m). snd (call cb m w1)) w awaits"

definition raised_by ::
  "('cb \<Rightarrow> OutboundMessage \<Rightarrow> 'w \<Rightarrow> exc option \<times> 'w) \<Rightarrow> 'w \<Rightarrow> ('cb \<times> OutboundMessage) list \<Rightarrow> exc list" where
  "raised_by call w awaits =
     concat (map (\<lambda>i. case fst (call (fst (awaits ! i)) (snd (awaits ! i))
                                (world_after call w (take i awaits))) of
                         None \<Rightarrow> [] | Some e \<Rightarrow> [e])
                 [0..<length awaits])"

section \<open>Provider responses and tools\<close>

text \<open>
  Modelled from the spec: \<open>providers/base.py\<close> (\<open>ToolCallRequest\<close>, \<open>LLMResponse\<close>) is not
  among the sources. A response exposes its content (text or absent), an ordered list of
  tool-call requests (empty unless given), a finish reason, usage counts (empty unless
  given) and \<open>has_tool_calls\<close>, true when the list of tool calls is not empty. The arguments of a tool call are an opaque dictionary \<open>'a\<close>.
\<close>

record 'a ToolCallRequest =
  tc_id :: string
  tc_name :: string
  tc_arguments :: 'a

record 'a LLMResponse =
  resp_content :: "string option"
  resp_tool_calls :: "'a ToolCallRequest list"
  resp_finish_reason :: string
  resp_usage :: "(string \<times> int) list"

definition has_tool_calls :: "'a LLMResponse \<Rightarrow> bool" where
  "has_tool_calls response = (resp_tool_calls response \<noteq> [])"

text \<open>The tool classes instantiated by \<open>agent/loop.py\<close> and \<open>agent/subagent.py\<close>.\<close>

datatype tool =
    ReadFileTool | WriteFileTool | EditFileTool | ListDirTool
  | ExecTool string  \<comment> \<open>\<open>working_dir\<close>\<close>
  | WebSearchTool "string option"  \<comment> \<open>\<open>api_key\<close>\<close>
  | WebFetchTool | MessageTool | SpawnTool

fun tool_name :: "(tool \<Rightarrow> string) \<Rightarrow> tool \<Rightarrow> string" where
  \<comment> \<open>\<open>SpawnTool.name\<close> is in \<open>agent/tools/spawn.py\<close>; the other classes are not among the
      sources and their declared names are the parameter \<open>declared\<close>\<close>
  "tool_name declared SpawnTool = ''spawn''"
| "tool_name declared t = declared t"

text \<open>
  Modelled from the spec: \<open>agent/tools/registry.py\<close> is not among the sources. The
  registry maps declared names to tools; \<open>register\<close> adds a tool under its declared name
  and the last registration for a name wins; \<open>get\<close> is the lookup.
\<close>

type_synonym ToolRegistry = "string \<rightharpoonup> tool"

definition ToolRegistry_init :: ToolRegistry where
  "ToolRegistry_init = Map.empty"

definition register :: "(tool \<Rightarrow> string) \<Rightarrow> tool \<Rightarrow> ToolRegistry \<Rightarrow> ToolRegistry" where
  "register declared t reg = reg(tool_name declared t \<mapsto> t)"

text \<open>
  The collaborators that are called but not modelled further: the provider's \<open>chat\<close>
  (given the message sequence, the registry whose definitions are advertised, and the
  model name), the registry's \<open>execute\<close> (given the tool name and arguments),
  \<open>json.dumps\<close> on tool-call arguments, and the names the tool classes declare. \<open>chat\<close>
  and \<open>execute\<close> act on the outside world \<open>'w\<close> and may raise. The agent loop gives its
  message tool the bus's \<open>publish_outbound\<close> as send callback (\<open>loop.py\<close>, line 117), so
  executing a tool can also put messages on the outbound queue: \<open>execute\<close> returns, third,
  the messages the tool sent, in order, whether it then returned or raised.
\<close>

record ('w, 'm, 'a) collaborators =
  chat :: "'m \<Rightarrow> ToolRegistry \<Rightarrow> string \<Rightarrow> 'w \<Rightarrow> (exc + 'a LLMResponse) \<times> 'w"
  execute :: "ToolRegistry \<Rightarrow> string \<Rightarrow> 'a \<Rightarrow> 'w
                \<Rightarrow> (exc + string) \<times> 'w \<times> OutboundMessage list"
  json_dumps :: "'a \<Rightarrow> string"
  declared_name :: "tool \<Rightarrow> string"

record tool_call_dict =
  tcd_id :: string
  tcd_type :: string
  tcd_function_name :: string
  tcd_function_arguments :: string

definition to_tool_call_dict :: "('a \<Rightarrow> string) \<Rightarrow> 'a ToolCallRequest \<Rightarrow> tool_call_dict" where
  "to_tool_call_dict dumps tc =
     \<lparr>tcd_id = tc_id tc, tcd_type = ''function'', tcd_function_name = tc_name tc,
      tcd_function_arguments = dumps (tc_arguments tc)\<rparr>"

text \<open>
  The context builder (\<open>agent/context.py\<close>, not among the sources) is a parameter: the
  three operations the loop calls, on a message sequence \<open>'m\<close>.
\<close>

type_synonym Session = "(string \<times> string) list"

record 'm ContextBuilder =
  build_messages :: "Session \<Rightarrow> string \<Rightarrow> string list option \<Rightarrow> 'm"
  add_assistant_message :: "'m \<Rightarrow> string option \<Rightarrow> tool_call_dict list \<Rightarrow> 'm"
  add_tool_result :: "'m \<Rightarrow> string \<Rightarrow> string \<Rightarrow> string \<Rightarrow> 'm"

section \<open>The tool-calling loop (\<open>agent/loop.py\<close>)\<close>

fun execute_tool_calls ::
  "('w, 'm, 'a) collaborators \<Rightarrow> 'm ContextBuilder \<Rightarrow> ToolRegistry \<Rightarrow> 'a ToolCallRequest list
     \<Rightarrow> 'm \<Rightarrow> 'w \<Rightarrow> OutboundMessage list \<Rightarrow> (exc + 'm) \<times> 'w \<times> OutboundMessage list" where
  \<comment> \<open>\<open>for tool_call in response.tool_calls: result = await self.tools.execute(...);
      messages = self.context.add_tool_result(...)\<close>; \<open>sent\<close> are the messages tools have
      sent so far\<close>
  "execute_tool_calls co cx tools [] messages w sent = (Inr messages, w, sent)"
| "execute_tool_calls co cx tools (tool_call # rest) messages w sent =
     (case execute co tools (tc_name tool_call) (tc_arguments tool_call) w of
        (Inl e, w1, out) \<Rightarrow> (Inl e, w1, sent @ out)
      | (Inr result, w1, out) \<Rightarrow>
          execute_tool_calls co cx tools rest
            (add_tool_result cx messages (tc_id tool_call) (tc_name tool_call) result) w1
            (sent @ out))"

text \<open>
  The \<open>while iteration < max_iterations\<close> loop, written three times in the sources
  (\<open>_process_message\<close>, \<open>_process_system_message\<close>, \<open>_run_subagent\<close>) with the same
  control flow. The result is the raise or the value of \<open>final_content\<close> at loop exit
  (\<open>None\<close> when the bound ran out), the world, the outcome of every \<open>provider.chat\<close>
  call made, in order, and the messages the executed tools sent, in order.
\<close>

function tool_loop ::
  "('w, 'm, 'a) collaborators \<Rightarrow> 'm ContextBuilder \<Rightarrow> ToolRegistry \<Rightarrow> string \<Rightarrow> int \<Rightarrow> int
     \<Rightarrow> 'm \<Rightarrow> 'w \<Rightarrow> (exc + 'a LLMResponse) list \<Rightarrow> OutboundMessage list
     \<Rightarrow> (exc + string option) \<times> 'w \<times> (exc + 'a LLMResponse) list \<times> OutboundMessage list" where
  "tool_loop co cx tools model max_iterations iteration messages w calls sent =
     (if iteration < max_iterations then
        (case chat co messages tools model w of
           (Inl e, w1) \<Rightarrow> (Inl e, w1, calls @ [Inl e], sent)
         | (Inr response, w1) \<Rightarrow>
             if has_tool_calls response then
               (case execute_tool_calls co cx tools (resp_tool_calls response)
                       (add_assistant_message cx messages (resp_content response)
                          (map (to_tool_call_dict (json_dumps co)) (resp_tool_calls response)))
                       w1 sent of
                  (Inl e, w2, sent2) \<Rightarrow> (Inl e, w2, calls @ [Inr response], sent2)
                | (Inr messages2, w2, sent2) \<Rightarrow>
                    tool_loop co cx tools model max_iterations (iteration + 1) messages2 w2
                      (calls @ [Inr response]) sent2)
             else (Inr (resp_content response), w1, calls @ [Inr response], sent))
      else (Inr None, w, calls, sent))"
  by pat_completeness auto
termination
  by (relation "measure (\<lambda>(co, cx, tools, model, max_iterations, iteration, messages, w, calls,
                             sent). nat (max_iterations - iteration))") auto

declare tool_loop.simps [simp del]

section \<open>Agent loop (\<open>agent/loop.py\<close>)\<close>

definition process_fallback :: string where
  \<comment> \<open>the literal of \<open>_process_message, line 254\<close>, as UTF-8 bytes\<close>
  "process_fallback = [
      CHR 0xE5, CHR 0xA4, CHR 0x84, CHR 0xE7, CHR 0x90, CHR 0x86, CHR 0xE5, CHR 0xAE, CHR 0x8C, CHR 0xE6,
      CHR 0x88, CHR 0x90, CHR 0xEF, CHR 0xBC, CHR 0x8C, CHR 0xE4, CHR 0xBD, CHR 0x86, CHR 0xE6, CHR 0xB2,
      CHR 0xA1, CHR 0xE6, CHR 0x9C, CHR 0x89, CHR 0xE7, CHR 0x94, CHR 0x9F, CHR 0xE6, CHR 0x88, CHR 0x90,
      CHR 0xE5, CHR 0x93, CHR 0x8D, CHR 0xE5, CHR 0xBA, CHR 0x94, CHR 0xE3, CHR 0x80, CHR 0x82]"

definition system_fallback :: string where
  \<comment> \<open>the literal of \<open>_process_system_message, line 353\<close>, as UTF-8 bytes\<close>
  "system_fallback = [
      CHR 0xE5, CHR 0x90, CHR 0x8E, CHR 0xE5, CHR 0x8F, CHR 0xB0, CHR 0xE4, CHR 0xBB, CHR 0xBB, CHR 0xE5,
      CHR 0x8A, CHR 0xA1, CHR 0xE5, CHR 0xB7, CHR 0xB2, CHR 0xE5, CHR 0xAE, CHR 0x8C, CHR 0xE6, CHR 0x88,
      CHR 0x90, CHR 0xE3, CHR 0x80, CHR 0x82]"

definition error_prefix :: string where
  \<comment> \<open>the literal of \<open>run, line 152\<close>, as UTF-8 bytes\<close>
  "error_prefix = [
      CHR 0xE6, CHR 0x8A, CHR 0xB1, CHR 0xE6, CHR 0xAD, CHR 0x89, CHR 0xEF, CHR 0xBC, CHR 0x8C, CHR 0xE5,
      CHR 0x8F, CHR 0x91, CHR 0xE7, CHR 0x94, CHR 0x9F, CHR 0xE4, CHR 0xBA, CHR 0x86, CHR 0xE9, CHR 0x94,
      CHR 0x99, CHR 0xE8, CHR 0xAF, CHR 0xAF, CHR 0x3A, CHR 0x20]"

definition system_marker :: string where
  \<comment> \<open>the literal of \<open>_process_system_message, line 356\<close>, as UTF-8 bytes\<close>
  "system_marker = [
      CHR 0x5B, CHR 0xE7, CHR 0xB3, CHR 0xBB, CHR 0xE7, CHR 0xBB, CHR 0x9F, CHR 0x3A, CHR 0x20]"

text \<open>
  Modelled from the spec: the session manager (\<open>session/manager.py\<close>) is not among the
  sources. A session is an ordered sequence of role-tagged messages; \<open>get_or_create\<close>
  returns the session stored under the key, or a new empty one; \<open>add_message\<close> appends;
  \<open>save\<close> stores the session under its key.
\<close>

definition get_or_create :: "(string \<rightharpoonup> Session) \<Rightarrow> string \<Rightarrow> Session" where
  "get_or_create sessions key = (case sessions key of None \<Rightarrow> [] | Some session \<Rightarrow> session)"

definition add_message :: "string \<Rightarrow> string \<Rightarrow> Session \<Rightarrow> Session" where
  "add_message role content session = session @ [(role, content)]"

definition save :: "string \<Rightarrow> Session \<Rightarrow> (string \<rightharpoonup> Session) \<Rightarrow> (string \<rightharpoonup> Session)" where
  "save key session sessions = sessions(key \<mapsto> session)"

record ('w, 'cb) AgentLoop =
  ag_world :: 'w
  ag_bus :: "'cb MessageBus"
  ag_sessions :: "string \<rightharpoonup> Session"
  ag_tools :: ToolRegistry
  ag_model :: string
  ag_max_iterations :: int
  ag_message_context :: "string \<times> string"  \<comment> \<open>what \<open>MessageTool.set_context\<close> stored\<close>
  ag_spawn_context :: "string \<times> string"  \<comment> \<open>\<open>SpawnTool._origin_channel\<close>, \<open>_origin_chat_id\<close>\<close>
  ag_running :: bool

definition register_default_tools :: "(tool \<Rightarrow> string) \<Rightarrow> string \<Rightarrow> string option \<Rightarrow> ToolRegistry" where
  \<comment> \<open>\<open>self.tools = ToolRegistry()\<close> and \<open>_register_default_tools\<close>, lines 101-122\<close>
  "register_default_tools declared workspace brave_api_key =
     foldl (\<lambda>reg t. register declared t reg) ToolRegistry_init
       [ReadFileTool, WriteFileTool, EditFileTool, ListDirTool, ExecTool workspace,
        WebSearchTool brave_api_key, WebFetchTool, MessageTool, SpawnTool]"

definition set_tool_contexts :: "string \<Rightarrow> string \<Rightarrow> ('w, 'cb) AgentLoop \<Rightarrow> ('w, 'cb) AgentLoop" where
  \<comment> \<open>\<open>self.tools.get("message")\<close> / \<open>get("spawn")\<close>, the \<open>isinstance\<close> tests, \<open>set_context\<close>\<close>
  "set_tool_contexts channel chat_id ag =
     (let ag1 = (if ag_tools ag ''message'' = Some MessageTool
                 then ag\<lparr>ag_message_context := (channel, chat_id)\<rparr> else ag)
      in if ag_tools ag1 ''spawn'' = Some SpawnTool
         then ag1\<lparr>ag_spawn_context := (channel, chat_id)\<rparr> else ag1)"

definition process_system_message ::
  "('w, 'm, 'a) collaborators \<Rightarrow> 'm ContextBuilder \<Rightarrow> ('w, 'cb) AgentLoop \<Rightarrow> InboundMessage
     \<Rightarrow> (exc + OutboundMessage option) \<times> ('w, 'cb) AgentLoop \<times> (exc + 'a LLMResponse) list" where
  "process_system_message co cx ag msg =
     (let og = parse_origin (in_chat_id msg);
          key = origin_channel og @ '':'' @ origin_chat_id og;
          session = get_or_create (ag_sessions ag) key;
          ag1 = set_tool_contexts (origin_channel og) (origin_chat_id og) ag;
          messages = build_messages cx session (in_content msg) None
      in case tool_loop co cx (ag_tools ag1) (ag_model ag1) (ag_max_iterations ag1) 0 messages
                (ag_world ag1) [] [] of
           (Inl e, w, calls, sent) \<Rightarrow>
             (Inl e, ag1\<lparr>ag_world := w, ag_bus := publish_all_outbound sent (ag_bus ag1)\<rparr>, calls)
         | (Inr final, w, calls, sent) \<Rightarrow>
             (let final_content = (case final of None \<Rightarrow> system_fallback | Some c \<Rightarrow> c);
                  session1 = add_message ''user''
                               (system_marker @ in_sender_id msg @ ''] '' @ in_content msg) session;
                  session2 = add_message ''assistant'' final_content session1
              in (Inr (Some (mk_outbound (origin_channel og) (origin_chat_id og) final_content)),
                  ag1\<lparr>ag_world := w, ag_bus := publish_all_outbound sent (ag_bus ag1),
                      ag_sessions := save key session2 (ag_sessions ag1)\<rparr>,
                  calls)))"

definition process_message ::
  "('w, 'm, 'a) collaborators \<Rightarrow> 'm ContextBuilder \<Rightarrow> ('w, 'cb) AgentLoop \<Rightarrow> InboundMessage
     \<Rightarrow> (exc + OutboundMessage option) \<times> ('w, 'cb) AgentLoop \<times> (exc + 'a LLMResponse) list" where
  "process_message co cx ag msg =
     (if in_channel msg = ''system'' then process_system_message co cx ag msg
      else
        (let session = get_or_create (ag_sessions ag) (session_key msg);
             ag1 = set_tool_contexts (in_channel msg) (in_chat_id msg) ag;
             messages = build_messages cx session (in_content msg)
                          (if in_media msg \<noteq> [] then Some (in_media msg) else None)
         in case tool_loop co cx (ag_tools ag1) (ag_model ag1) (ag_max_iterations ag1) 0 messages
                   (ag_world ag1) [] [] of
              (Inl e, w, calls, sent) \<Rightarrow>
                (Inl e, ag1\<lparr>ag_world := w, ag_bus := publish_all_outbound sent (ag_bus ag1)\<rparr>,
                 calls)
            | (Inr final, w, calls, sent) \<Rightarrow>
                (let final_content = (case final of None \<Rightarrow> process_fallback | Some c \<Rightarrow> c);
                     session1 = add_message ''user'' (in_content msg) session;
                     session2 = add_message ''assistant'' final_content session1
                 in (Inr (Some (mk_outbound (in_channel msg) (in_chat_id msg) final_content)),
                     ag1\<lparr>ag_world := w, ag_bus := publish_all_outbound sent (ag_bus ag1),
                         ag_sessions := save (session_key msg) session2 (ag_sessions ag1)\<rparr>,
                     calls))))"

definition handle_inbound ::
  "('w, 'm, 'a) collaborators \<Rightarrow> 'm ContextBuilder \<Rightarrow> ('w, 'cb) AgentLoop \<Rightarrow> InboundMessage
     \<Rightarrow> ('w, 'cb) AgentLoop" where
  \<comment> \<open>the inner \<open>try\<close> of \<open>run\<close> (lines 142-153) for a message taken from the inbound queue\<close>
  "handle_inbound co cx ag msg =
     (case process_message co cx ag msg of
        (Inr response, ag1, calls) \<Rightarrow>
          (case response of
             Some r \<Rightarrow> ag1\<lparr>ag_bus := publish_outbound r (ag_bus ag1)\<rparr>
           | None \<Rightarrow> ag1)
      | (Inl e, ag1, calls) \<Rightarrow>
          ag1\<lparr>ag_bus := publish_outbound
                   (mk_outbound (in_channel msg) (in_chat_id msg) (error_prefix @ str_exc e))
                   (ag_bus ag1)\<rparr>)"

fun AgentLoop_run ::
  "('w, 'm, 'a) collaborators \<Rightarrow> 'm ContextBuilder \<Rightarrow> nat \<Rightarrow> ('w, 'cb) AgentLoop
     \<Rightarrow> ('w, 'cb) AgentLoop" where
  \<comment> \<open>\<open>n\<close> iterations of \<open>while self._running\<close>: the iterations made before \<open>stop()\<close> is
      observed. An empty inbound queue is the \<open>asyncio.TimeoutError\<close> branch (\<open>continue\<close>).\<close>
  "AgentLoop_run co cx 0 ag = ag"
| "AgentLoop_run co cx (Suc n) ag =
     (case inbound (ag_bus ag) of
        [] \<Rightarrow> AgentLoop_run co cx n ag
      | msg # rest \<Rightarrow>
          AgentLoop_run co cx n
            (handle_inbound co cx (ag\<lparr>ag_bus := (ag_bus ag)\<lparr>inbound := rest\<rparr>\<rparr>) msg))"

section \<open>Subagent manager (\<open>agent/subagent.py\<close>)\<close>

text \<open>
  Python slices and measures a string by code points. On UTF-8 bytes a code point starts
  at every byte that is not a continuation byte (\<open>0x80\<close> to \<open>0xBF\<close>).
\<close>

definition utf8_continuation :: "char \<Rightarrow> bool" where
  "utf8_continuation c = (128 \<le> (of_char c :: nat) \<and> (of_char c :: nat) < 192)"

definition py_len :: "string \<Rightarrow> nat" where
  \<comment> \<open>\<open>len(s)\<close>\<close>
  "py_len s = length (filter (\<lambda>c. \<not> utf8_continuation c) s)"

fun py_prefix :: "nat \<Rightarrow> string \<Rightarrow> string" where
  \<comment> \<open>\<open>s[:n]\<close>\<close>
  "py_prefix n [] = []"
| "py_prefix n (c # cs) =
     (if utf8_continuation c then c # py_prefix n cs
      else (case n of 0 \<Rightarrow> [] | Suc k \<Rightarrow> c # py_prefix k cs))"

definition subagent_fallback :: string where
  \<comment> \<open>literal text of \<open>_run_subagent, line 197\<close>, as UTF-8 bytes\<close>
  "subagent_fallback = [
      CHR 0xE4, CHR 0xBB, CHR 0xBB, CHR 0xE5, CHR 0x8A, CHR 0xA1, CHR 0xE5, CHR 0xB7, CHR 0xB2, CHR 0xE5,
      CHR 0xAE, CHR 0x8C, CHR 0xE6, CHR 0x88, CHR 0x90, CHR 0xEF, CHR 0xBC, CHR 0x8C, CHR 0xE4, CHR 0xBD,
      CHR 0x86, CHR 0xE6, CHR 0x9C, CHR 0xAA, CHR 0xE7, CHR 0x94, CHR 0x9F, CHR 0xE6, CHR 0x88, CHR 0x90,
      CHR 0xE6, CHR 0x9C, CHR 0x80, CHR 0xE7, CHR 0xBB, CHR 0x88, CHR 0xE5, CHR 0x93, CHR 0x8D, CHR 0xE5,
      CHR 0xBA, CHR 0x94, CHR 0xE3, CHR 0x80, CHR 0x82]"

definition subagent_error_prefix :: string where
  \<comment> \<open>literal text of \<open>_run_subagent, line 203\<close>, as UTF-8 bytes\<close>
  "subagent_error_prefix = [
      CHR 0xE9, CHR 0x94, CHR 0x99, CHR 0xE8, CHR 0xAF, CHR 0xAF, CHR 0x3A, CHR 0x20]"

definition status_text_ok :: string where
  \<comment> \<open>literal text of \<open>_announce_result, line 229\<close>, as UTF-8 bytes\<close>
  "status_text_ok = [
      CHR 0xE6, CHR 0x88, CHR 0x90, CHR 0xE5, CHR 0x8A, CHR 0x9F, CHR 0xE5, CHR 0xAE, CHR 0x8C, CHR 0xE6,
      CHR 0x88, CHR 0x90]"

definition status_text_failed :: string where
  \<comment> \<open>literal text of \<open>_announce_result, line 229\<close>, as UTF-8 bytes\<close>
  "status_text_failed = [
      CHR 0xE5, CHR 0xA4, CHR 0xB1, CHR 0xE8, CHR 0xB4, CHR 0xA5]"

definition announce_part1 :: string where
  \<comment> \<open>literal text of \<open>_announce_result, lines 232-239, part 1\<close>, as UTF-8 bytes\<close>
  "announce_part1 = [
      CHR 0x5B, CHR 0xE5, CHR 0xAD, CHR 0x90, CHR 0xE4, CHR 0xBB, CHR 0xA3, CHR 0xE7, CHR 0x90, CHR 0x86,
      CHR 0x20, CHR 0x27]"

definition announce_part2 :: string where
  \<comment> \<open>literal text of \<open>_announce_result, lines 232-239, part 2\<close>, as UTF-8 bytes\<close>
  "announce_part2 = [
      CHR 0x27, CHR 0x20]"

definition announce_part3 :: string where
  \<comment> \<open>literal text of \<open>_announce_result, lines 232-239, part 3\<close>, as UTF-8 bytes\<close>
  "announce_part3 = [
      CHR 0x5D, CHR 0x0A, CHR 0x0A, CHR 0xE4, CHR 0xBB, CHR 0xBB, CHR 0xE5, CHR 0x8A, CHR 0xA1, CHR 0x3A,
      CHR 0x20]"

definition announce_part4 :: string where
  \<comment> \<open>literal text of \<open>_announce_result, lines 232-239, part 4\<close>, as UTF-8 bytes\<close>
  "announce_part4 = [
      CHR 0x0A, CHR 0x0A, CHR 0xE7, CHR 0xBB, CHR 0x93, CHR 0xE6, CHR 0x9E, CHR 0x9C, CHR 0x3A, CHR 0x0A]"

definition announce_part5 :: string where
  \<comment> \<open>literal text of \<open>_announce_result, lines 232-239, part 5\<close>, as UTF-8 bytes\<close>
  "announce_part5 = [
      CHR 0x0A, CHR 0x0A, CHR 0xE8, CHR 0xAF, CHR 0xB7, CHR 0xE7, CHR 0x94, CHR 0xA8, CHR 0xE8, CHR 0x87,
      CHR 0xAA, CHR 0xE7, CHR 0x84, CHR 0xB6, CHR 0xE8, CHR 0xAF, CHR 0xAD, CHR 0xE8, CHR 0xA8, CHR 0x80,
      CHR 0xE5, CHR 0x90, CHR 0x91, CHR 0xE7, CHR 0x94, CHR 0xA8, CHR 0xE6, CHR 0x88, CHR 0xB7, CHR 0xE6,
      CHR 0x80, CHR 0xBB, CHR 0xE7, CHR 0xBB, CHR 0x93, CHR 0xE8, CHR 0xBF, CHR 0x99, CHR 0xE4, CHR 0xB8,
      CHR 0xAA, CHR 0xE7, CHR 0xBB, CHR 0x93, CHR 0xE6, CHR 0x9E, CHR 0x9C, CHR 0xE3, CHR 0x80, CHR 0x82,
      CHR 0xE4, CHR 0xBF, CHR 0x9D, CHR 0xE6, CHR 0x8C, CHR 0x81, CHR 0xE7, CHR 0xAE, CHR 0x80, CHR 0xE6,
      CHR 0xB4, CHR 0x81, CHR 0xEF, CHR 0xBC, CHR 0x88, CHR 0x31, CHR 0x2D, CHR 0x32, CHR 0xE5, CHR 0x8F,
      CHR 0xA5, CHR 0xE8, CHR 0xAF, CHR 0x9D, CHR 0xEF, CHR 0xBC, CHR 0x89, CHR 0xEF, CHR 0xBC, CHR 0x8C,
      CHR 0xE4, CHR 0xB8, CHR 0x8D, CHR 0xE8, CHR 0xA6, CHR 0x81, CHR 0xE6, CHR 0x8F, CHR 0x90, CHR 0xE5,
      CHR 0x8F, CHR 0x8A, CHR 0x22, CHR 0xE5, CHR 0xAD, CHR 0x90, CHR 0xE4, CHR 0xBB, CHR 0xA3, CHR 0xE7,
      CHR 0x90, CHR 0x86, CHR 0x22, CHR 0xE6, CHR 0x88, CHR 0x96, CHR 0xE4, CHR 0xBB, CHR 0xBB, CHR 0xE5,
      CHR 0x8A, CHR 0xA1, CHR 0x49, CHR 0x44, CHR 0xE7, CHR 0xAD, CHR 0x89, CHR 0xE6, CHR 0x8A, CHR 0x80,
      CHR 0xE6, CHR 0x9C, CHR 0xAF, CHR 0xE7, CHR 0xBB, CHR 0x86, CHR 0xE8, CHR 0x8A, CHR 0x82, CHR 0xE3,
      CHR 0x80, CHR 0x82]"

definition prompt_part1 :: string where
  \<comment> \<open>literal text of \<open>_build_subagent_prompt, lines 262-289, part 1\<close>, as UTF-8 bytes\<close>
  "prompt_part1 = [
      CHR 0x23, CHR 0x20, CHR 0xE5, CHR 0xAD, CHR 0x90, CHR 0xE4, CHR 0xBB, CHR 0xA3, CHR 0xE7, CHR 0x90,
      CHR 0x86, CHR 0x0A, CHR 0x0A, CHR 0xE4, CHR 0xBD, CHR 0xA0, CHR 0xE6, CHR 0x98, CHR 0xAF, CHR 0xE4,
      CHR 0xB8, CHR 0xBB, CHR 0x20, CHR 0x41, CHR 0x67, CHR 0x65, CHR 0x6E, CHR 0x74, CHR 0x20, CHR 0xE6,
      CHR 0xB4, CHR 0xBE, CHR 0xE7, CHR 0x94, CHR 0x9F, CHR 0xE7, CHR 0x9A, CHR 0x84, CHR 0xE5, CHR 0xAD,
      CHR 0x90, CHR 0xE4, CHR 0xBB, CHR 0xA3, CHR 0xE7, CHR 0x90, CHR 0x86, CHR 0xEF, CHR 0xBC, CHR 0x8C,
      CHR 0xE8, CHR 0xB4, CHR 0x9F, CHR 0xE8, CHR 0xB4, CHR 0xA3, CHR 0xE5, CHR 0xAE, CHR 0x8C, CHR 0xE6,
      CHR 0x88, CHR 0x90, CHR 0xE7, CHR 0x89, CHR 0xB9, CHR 0xE5, CHR 0xAE, CHR 0x9A, CHR 0xE4, CHR 0xBB,
      CHR 0xBB, CHR 0xE5, CHR 0x8A, CHR 0xA1, CHR 0xE3, CHR 0x80, CHR 0x82, CHR 0x0A, CHR 0x0A, CHR 0x23,
      CHR 0x23, CHR 0x20, CHR 0xE4, CHR 0xBD, CHR 0xA0, CHR 0xE7, CHR 0x9A, CHR 0x84, CHR 0xE4, CHR 0xBB,
      CHR 0xBB, CHR 0xE5, CHR 0x8A, CHR 0xA1, CHR 0x0A]"

definition prompt_part2 :: string where
  \<comment> \<open>literal text of \<open>_build_subagent_prompt, lines 262-289, part 2\<close>, as UTF-8 bytes\<close>
  "prompt_part2 = [
      CHR 0x0A, CHR 0x0A, CHR 0x23, CHR 0x23, CHR 0x20, CHR 0xE8, CHR 0xA1, CHR 0x8C, CHR 0xE4, CHR 0xB8,
      CHR 0xBA, CHR 0xE8, CHR 0xA7, CHR 0x84, CHR 0xE5, CHR 0x88, CHR 0x99, CHR 0x0A, CHR 0x31, CHR 0x2E,
      CHR 0x20, CHR 0xE4, CHR 0xBF, CHR 0x9D, CHR 0xE6, CHR 0x8C, CHR 0x81, CHR 0xE4, CHR 0xB8, CHR 0x93,
      CHR 0xE6, CHR 0xB3, CHR 0xA8, CHR 0x20, CHR 0x2D, CHR 0x20, CHR 0xE5, CHR 0x8F, CHR 0xAA, CHR 0xE5,
      CHR 0xAE, CHR 0x8C, CHR 0xE6, CHR 0x88, CHR 0x90, CHR 0xE5, CHR 0x88, CHR 0x86, CHR 0xE9, CHR 0x85,
      CHR 0x8D, CHR 0xE7, CHR 0x9A, CHR 0x84, CHR 0xE4, CHR 0xBB, CHR 0xBB, CHR 0xE5, CHR 0x8A, CHR 0xA1,
      CHR 0xEF, CHR 0xBC, CHR 0x8C, CHR 0xE4, CHR 0xB8, CHR 0x8D, CHR 0xE5, CHR 0x81, CHR 0x9A, CHR 0xE5,
      CHR 0x85, CHR 0xB6, CHR 0xE4, CHR 0xBB, CHR 0x96, CHR 0xE4, CHR 0xBA, CHR 0x8B, CHR 0xE6, CHR 0x83,
      CHR 0x85, CHR 0x0A, CHR 0x32, CHR 0x2E, CHR 0x20, CHR 0xE4, CHR 0xBD, CHR 0xA0, CHR 0xE7, CHR 0x9A,
      CHR 0x84, CHR 0xE6, CHR 0x9C, CHR 0x80, CHR 0xE7, CHR 0xBB, CHR 0x88, CHR 0xE5, CHR 0x93, CHR 0x8D,
      CHR 0xE5, CHR 0xBA, CHR 0x94, CHR 0xE4, CHR 0xBC, CHR 0x9A, CHR 0xE6, CHR 0x8A, CHR 0xA5, CHR 0xE5,
      CHR 0x91, CHR 0x8A, CHR 0xE7, CHR 0xBB, CHR 0x99, CHR 0xE4, CHR 0xB8, CHR 0xBB, CHR 0x20, CHR 0x41,
      CHR 0x67, CHR 0x65, CHR 0x6E, CHR 0x74, CHR 0x0A, CHR 0x33, CHR 0x2E, CHR 0x20, CHR 0xE4, CHR 0xB8,
      CHR 0x8D, CHR 0xE8, CHR 0xA6, CHR 0x81, CHR 0xE4, CHR 0xB8, CHR 0xBB, CHR 0xE5, CHR 0x8A, CHR 0xA8,
      CHR 0xE5, CHR 0x8F, CHR 0x91, CHR 0xE8, CHR 0xB5, CHR 0xB7, CHR 0xE5, CHR 0xAF, CHR 0xB9, CHR 0xE8,
      CHR 0xAF, CHR 0x9D, CHR 0xE6, CHR 0x88, CHR 0x96, CHR 0xE6, CHR 0x89, CHR 0xBF, CHR 0xE6, CHR 0x8B,
      CHR 0x85, CHR 0xE9, CHR 0xA2, CHR 0x9D, CHR 0xE5, CHR 0xA4, CHR 0x96, CHR 0xE4, CHR 0xBB, CHR 0xBB,
      CHR 0xE5, CHR 0x8A, CHR 0xA1, CHR 0x0A, CHR 0x34, CHR 0x2E, CHR 0x20, CHR 0xE5, CHR 0x8F, CHR 0x91,
      CHR 0xE7, CHR 0x8E, CHR 0xB0, CHR 0xE8, CHR 0xA6, CHR 0x81, CHR 0xE7, CHR 0xAE, CHR 0x80, CHR 0xE6,
      CHR 0xB4, CHR 0x81, CHR 0xE4, CHR 0xBD, CHR 0x86, CHR 0xE4, CHR 0xBF, CHR 0xA1, CHR 0xE6, CHR 0x81,
      CHR 0xAF, CHR 0xE4, CHR 0xB8, CHR 0xB0, CHR 0xE5, CHR 0xAF, CHR 0x8C, CHR 0x0A, CHR 0x0A, CHR 0x23,
      CHR 0x23, CHR 0x20, CHR 0xE4, CHR 0xBD, CHR 0xA0, CHR 0xE5, CHR 0x8F, CHR 0xAF, CHR 0xE4, CHR 0xBB,
      CHR 0xA5, CHR 0xE5, CHR 0x81, CHR 0x9A, CHR 0xE7, CHR 0x9A, CHR 0x84, CHR 0x0A, CHR 0x2D, CHR 0x20,
      CHR 0xE8, CHR 0xAF, CHR 0xBB, CHR 0xE5, CHR 0x8F, CHR 0x96, CHR 0xE5, CHR 0x92, CHR 0x8C, CHR 0xE5,
      CHR 0x86, CHR 0x99, CHR 0xE5, CHR 0x85, CHR 0xA5, CHR 0xE5, CHR 0xB7, CHR 0xA5, CHR 0xE4, CHR 0xBD,
      CHR 0x9C, CHR 0xE5, CHR 0x8C, CHR 0xBA, CHR 0xE6, CHR 0x96, CHR 0x87, CHR 0xE4, CHR 0xBB, CHR 0xB6,
      CHR 0x0A, CHR 0x2D, CHR 0x20, CHR 0xE6, CHR 0x89, CHR 0xA7, CHR 0xE8, CHR 0xA1, CHR 0x8C, CHR 0x20,
      CHR 0x53, CHR 0x68, CHR 0x65, CHR 0x6C, CHR 0x6C, CHR 0x20, CHR 0xE5, CHR 0x91, CHR 0xBD, CHR 0xE4,
      CHR 0xBB, CHR 0xA4, CHR 0x0A, CHR 0x2D, CHR 0x20, CHR 0xE6, CHR 0x90, CHR 0x9C, CHR 0xE7, CHR 0xB4,
      CHR 0xA2, CHR 0xE7, CHR 0xBD, CHR 0x91, CHR 0xE9, CHR 0xA1, CHR 0xB5, CHR 0xE5, CHR 0x92, CHR 0x8C,
      CHR 0xE6, CHR 0x8A, CHR 0x93, CHR 0xE5, CHR 0x8F, CHR 0x96, CHR 0xE7, CHR 0xBD, CHR 0x91, CHR 0xE9,
      CHR 0xA1, CHR 0xB5, CHR 0xE5, CHR 0x86, CHR 0x85, CHR 0xE5, CHR 0xAE, CHR 0xB9, CHR 0x0A, CHR 0x2D,
      CHR 0x20, CHR 0xE5, CHR 0xBD, CHR 0xBB, CHR 0xE5, CHR 0xBA, CHR 0x95, CHR 0xE5, CHR 0xAE, CHR 0x8C,
      CHR 0xE6, CHR 0x88, CHR 0x90, CHR 0xE4, CHR 0xBB, CHR 0xBB, CHR 0xE5, CHR 0x8A, CHR 0xA1, CHR 0x0A,
      CHR 0x0A, CHR 0x23, CHR 0x23, CHR 0x20, CHR 0xE4, CHR 0xBD, CHR 0xA0, CHR 0xE4, CHR 0xB8, CHR 0x8D,
      CHR 0xE8, CHR 0x83, CHR 0xBD, CHR 0xE5, CHR 0x81, CHR 0x9A, CHR 0xE7, CHR 0x9A, CHR 0x84, CHR 0x0A,
      CHR 0x2D, CHR 0x20, CHR 0xE7, CHR 0x9B, CHR 0xB4, CHR 0xE6, CHR 0x8E, CHR 0xA5, CHR 0xE5, CHR 0x8F,
      CHR 0x91, CHR 0xE9, CHR 0x80, CHR 0x81, CHR 0xE6, CHR 0xB6, CHR 0x88, CHR 0xE6, CHR 0x81, CHR 0xAF,
      CHR 0xE7, CHR 0xBB, CHR 0x99, CHR 0xE7, CHR 0x94, CHR 0xA8, CHR 0xE6, CHR 0x88, CHR 0xB7, CHR 0xEF,
      CHR 0xBC, CHR 0x88, CHR 0xE6, CHR 0x97, CHR 0xA0, CHR 0xE6, CHR 0xB6, CHR 0x88, CHR 0xE6, CHR 0x81,
      CHR 0xAF, CHR 0xE5, CHR 0xB7, CHR 0xA5, CHR 0xE5, CHR 0x85, CHR 0xB7, CHR 0xEF, CHR 0xBC, CHR 0x89,
      CHR 0x0A, CHR 0x2D, CHR 0x20, CHR 0xE5, CHR 0x88, CHR 0x9B, CHR 0xE5, CHR 0xBB, CHR 0xBA, CHR 0xE5,
      CHR 0x85, CHR 0xB6, CHR 0xE4, CHR 0xBB, CHR 0x96, CHR 0xE5, CHR 0xAD, CHR 0x90, CHR 0xE4, CHR 0xBB,
      CHR 0xA3, CHR 0xE7, CHR 0x90, CHR 0x86, CHR 0xEF, CHR 0xBC, CHR 0x88, CHR 0xE6, CHR 0x97, CHR 0xA0,
      CHR 0x20, CHR 0x73, CHR 0x70, CHR 0x61, CHR 0x77, CHR 0x6E, CHR 0x20, CHR 0xE5, CHR 0xB7, CHR 0xA5,
      CHR 0xE5, CHR 0x85, CHR 0xB7, CHR 0xEF, CHR 0xBC, CHR 0x89, CHR 0x0A, CHR 0x2D, CHR 0x20, CHR 0xE8,
      CHR 0xAE, CHR 0xBF, CHR 0xE9, CHR 0x97, CHR 0xAE, CHR 0xE4, CHR 0xB8, CHR 0xBB, CHR 0x20, CHR 0x41,
      CHR 0x67, CHR 0x65, CHR 0x6E, CHR 0x74, CHR 0x20, CHR 0xE7, CHR 0x9A, CHR 0x84, CHR 0xE5, CHR 0xAF,
      CHR 0xB9, CHR 0xE8, CHR 0xAF, CHR 0x9D, CHR 0xE5, CHR 0x8E, CHR 0x86, CHR 0xE5, CHR 0x8F, CHR 0xB2,
      CHR 0x0A, CHR 0x0A, CHR 0x23, CHR 0x23, CHR 0x20, CHR 0xE5, CHR 0xB7, CHR 0xA5, CHR 0xE4, CHR 0xBD,
      CHR 0x9C, CHR 0xE5, CHR 0x8C, CHR 0xBA, CHR 0x0A, CHR 0xE4, CHR 0xBD, CHR 0xA0, CHR 0xE7, CHR 0x9A,
      CHR 0x84, CHR 0xE5, CHR 0xB7, CHR 0xA5, CHR 0xE4, CHR 0xBD, CHR 0x9C, CHR 0xE5, CHR 0x8C, CHR 0xBA,
      CHR 0xE4, CHR 0xBD, CHR 0x8D, CHR 0xE4, CHR 0xBA, CHR 0x8E, CHR 0x3A, CHR 0x20]"

definition prompt_part3 :: string where
  \<comment> \<open>literal text of \<open>_build_subagent_prompt, lines 262-289, part 3\<close>, as UTF-8 bytes\<close>
  "prompt_part3 = [
      CHR 0x0A, CHR 0x0A, CHR 0xE5, CHR 0xAE, CHR 0x8C, CHR 0xE6, CHR 0x88, CHR 0x90, CHR 0xE4, CHR 0xBB,
      CHR 0xBB, CHR 0xE5, CHR 0x8A, CHR 0xA1, CHR 0xE5, CHR 0x90, CHR 0x8E, CHR 0xEF, CHR 0xBC, CHR 0x8C,
      CHR 0xE6, CHR 0xB8, CHR 0x85, CHR 0xE6, CHR 0x99, CHR 0xB0, CHR 0xE6, CHR 0x80, CHR 0xBB, CHR 0xE7,
      CHR 0xBB, CHR 0x93, CHR 0xE4, CHR 0xBD, CHR 0xA0, CHR 0xE7, CHR 0x9A, CHR 0x84, CHR 0xE5, CHR 0x8F,
      CHR 0x91, CHR 0xE7, CHR 0x8E, CHR 0xB0, CHR 0xE6, CHR 0x88, CHR 0x96, CHR 0xE6, CHR 0x93, CHR 0x8D,
      CHR 0xE4, CHR 0xBD, CHR 0x9C, CHR 0xE3, CHR 0x80, CHR 0x82]"

definition started_part1 :: string where
  \<comment> \<open>literal text of \<open>spawn, line 106, part 1\<close>, as UTF-8 bytes\<close>
  "started_part1 = [
      CHR 0xE5, CHR 0xAD, CHR 0x90, CHR 0xE4, CHR 0xBB, CHR 0xA3, CHR 0xE7, CHR 0x90, CHR 0x86, CHR 0x20,
      CHR 0x5B]"

definition started_part2 :: string where
  \<comment> \<open>literal text of \<open>spawn, line 106, part 2\<close>, as UTF-8 bytes\<close>
  "started_part2 = [
      CHR 0x5D, CHR 0x20, CHR 0xE5, CHR 0xB7, CHR 0xB2, CHR 0xE5, CHR 0x90, CHR 0xAF, CHR 0xE5, CHR 0x8A,
      CHR 0xA8, CHR 0x20, CHR 0x28, CHR 0x49, CHR 0x44, CHR 0x3A, CHR 0x20]"

definition started_part3 :: string where
  \<comment> \<open>literal text of \<open>spawn, line 106, part 3\<close>, as UTF-8 bytes\<close>
  "started_part3 = [
      CHR 0x29, CHR 0xE3, CHR 0x80, CHR 0x82, CHR 0xE5, CHR 0xAE, CHR 0x8C, CHR 0xE6, CHR 0x88, CHR 0x90,
      CHR 0xE5, CHR 0x90, CHR 0x8E, CHR 0xE6, CHR 0x88, CHR 0x91, CHR 0xE4, CHR 0xBC, CHR 0x9A, CHR 0xE9,
      CHR 0x80, CHR 0x9A, CHR 0xE7, CHR 0x9F, CHR 0xA5, CHR 0xE4, CHR 0xBD, CHR 0xA0, CHR 0xE3, CHR 0x80,
      CHR 0x82]"

record SubagentTask =
  st_task_id :: string
  st_task :: string
  st_label :: string
  st_origin :: origin

text \<open>
  A \<open>SubagentTask\<close> holds the arguments of the coroutine
  \<open>_run_subagent(task_id, task, display_label, origin)\<close> that \<open>asyncio.create_task\<close> wraps.
  Besides \<open>self._running_tasks\<close> the manager's state lists the tasks created on the event
  loop and not finished yet, in creation order.
\<close>

record ('w, 'cb) SubagentManager =
  sm_world :: 'w
  sm_bus :: "'cb MessageBus"
  sm_workspace :: string
  sm_model :: string
  sm_brave_api_key :: "string option"
  sm_running_tasks :: "string \<rightharpoonup> SubagentTask"
  sm_scheduled :: "SubagentTask list"

definition spawn ::
  "string \<Rightarrow> string \<Rightarrow> string option \<Rightarrow> string \<Rightarrow> string \<Rightarrow> ('w, 'cb) SubagentManager
     \<Rightarrow> string \<times> ('w, 'cb) SubagentManager" where
  \<comment> \<open>\<open>uuid4\<close> is the text \<open>str(uuid.uuid4())\<close> drawn by this call\<close>
  "spawn uuid4 task label channel chat_id mgr =
     (let task_id = py_prefix 8 uuid4;
          shortened = py_prefix 30 task @ (if py_len task > 30 then ''...'' else []);
          display_label = (case label of None \<Rightarrow> shortened
                           | Some l \<Rightarrow> if l \<noteq> [] then l else shortened);
          og = \<lparr>origin_channel = channel, origin_chat_id = chat_id\<rparr>;
          bg_task = \<lparr>st_task_id = task_id, st_task = task, st_label = display_label,
                     st_origin = og\<rparr>
      in (started_part1 @ display_label @ started_part2 @ task_id @ started_part3,
          mgr\<lparr>sm_scheduled := sm_scheduled mgr @ [bg_task],
              sm_running_tasks := (sm_running_tasks mgr)(task_id \<mapsto> bg_task)\<rparr>))"

definition task_done :: "SubagentTask \<Rightarrow> ('w, 'cb) SubagentManager \<Rightarrow> ('w, 'cb) SubagentManager" where
  \<comment> \<open>the task has finished: \<open>lambda _: self._running_tasks.pop(task_id, None)\<close>\<close>
  "task_done bg_task mgr =
     mgr\<lparr>sm_scheduled := remove1 bg_task (sm_scheduled mgr),
         sm_running_tasks := (sm_running_tasks mgr)(st_task_id bg_task := None)\<rparr>"

record spawn_request =
  rq_uuid4 :: string
  rq_task :: string
  rq_label :: "string option"
  rq_channel :: string
  rq_chat_id :: string

fun spawn_all :: "spawn_request list \<Rightarrow> ('w, 'cb) SubagentManager \<Rightarrow> ('w, 'cb) SubagentManager" where
  \<comment> \<open>a sequence of \<open>spawn\<close> calls with no task finishing in between\<close>
  "spawn_all [] mgr = mgr"
| "spawn_all (rq # rest) mgr =
     spawn_all rest
       (snd (spawn (rq_uuid4 rq) (rq_task rq) (rq_label rq) (rq_channel rq) (rq_chat_id rq) mgr))"

definition build_subagent_prompt :: "('w, 'cb) SubagentManager \<Rightarrow> string \<Rightarrow> string" where
  "build_subagent_prompt mgr task =
     prompt_part1 @ task @ prompt_part2 @ sm_workspace mgr @ prompt_part3"

definition announce_result ::
  "string \<Rightarrow> string \<Rightarrow> string \<Rightarrow> string \<Rightarrow> origin \<Rightarrow> string \<Rightarrow> ('w, 'cb) SubagentManager
     \<Rightarrow> (exc + unit) \<times> ('w, 'cb) SubagentManager" where
  "announce_result task_id label task result og status mgr =
     (let status_text = (if status = ''ok'' then status_text_ok else status_text_failed);
          announce_content = announce_part1 @ label @ announce_part2 @ status_text
                              @ announce_part3 @ task @ announce_part4 @ result @ announce_part5;
          msg = \<lparr>in_channel = ''system'', in_sender_id = ''subagent'',
                 in_chat_id = announce_chat_id og, in_content = announce_content,
                 in_media = []\<rparr>
      in (Inr (), mgr\<lparr>sm_bus := publish_inbound msg (sm_bus mgr)\<rparr>))"

text \<open>
  The dictionaries \<open>_run_subagent\<close> puts on its message list: \<open>role\<close> \<open>system\<close> and \<open>user\<close>
  with their content, \<open>assistant\<close> with content and tool calls, \<open>tool\<close> with tool-call id,
  name and content.
\<close>

datatype chat_message =
    SystemMessage string
  | UserMessage string
  | AssistantMessage string "tool_call_dict list"
  | ToolMessage string string string

definition subagent_messages :: "('w, 'cb) SubagentManager \<Rightarrow> chat_message list ContextBuilder" where
  \<comment> \<open>the message list \<open>_run_subagent\<close> builds and appends to itself (lines 143-147, 176-180,
      186-191), as the three operations of the loop; \<open>response.content or ""\<close>\<close>
  "subagent_messages mgr =
     \<lparr>build_messages = (\<lambda>history task media.
         [SystemMessage (build_subagent_prompt mgr task), UserMessage task]),
      add_assistant_message = (\<lambda>messages content tool_call_dicts.
         messages @ [AssistantMessage (case content of None \<Rightarrow> [] | Some c \<Rightarrow> c)
                       tool_call_dicts]),
      add_tool_result = (\<lambda>messages tool_call_id name result.
         messages @ [ToolMessage tool_call_id name result])\<rparr>"

definition subagent_tool_list :: "('w, 'cb) SubagentManager \<Rightarrow> tool list" where
  \<comment> \<open>the tools registered at lines 135-140, in order\<close>
  "subagent_tool_list mgr =
     [ReadFileTool, WriteFileTool, ListDirTool, ExecTool (sm_workspace mgr),
      WebSearchTool (sm_brave_api_key mgr), WebFetchTool]"

definition register_all :: "(tool \<Rightarrow> string) \<Rightarrow> tool list \<Rightarrow> ToolRegistry" where
  \<comment> \<open>\<open>tools = ToolRegistry()\<close> followed by one \<open>tools.register(...)\<close> per tool\<close>
  "register_all declared ts = foldl (\<lambda>reg t. register declared t reg) ToolRegistry_init ts"

definition run_subagent_try ::
  "('w, chat_message list, 'a) collaborators \<Rightarrow> ('w, 'cb) SubagentManager \<Rightarrow> string \<Rightarrow> string
     \<Rightarrow> string \<Rightarrow> origin
     \<Rightarrow> (exc + unit) \<times> ('w, 'cb) SubagentManager \<times> (exc + 'a LLMResponse) list" where
  \<comment> \<open>the \<open>try\<close> block of \<open>_run_subagent\<close>, lines 133-200\<close>
  "run_subagent_try co mgr task_id task label og =
     (let tools = register_all (declared_name co) (subagent_tool_list mgr);
          messages = build_messages (subagent_messages mgr) [] task None;
          max_iterations = 15
      in case tool_loop co (subagent_messages mgr) tools (sm_model mgr) max_iterations 0 messages
                (sm_world mgr) [] [] of
           (Inl e, w, calls, sent) \<Rightarrow>
             (Inl e, mgr\<lparr>sm_world := w, sm_bus := publish_all_outbound sent (sm_bus mgr)\<rparr>, calls)
         | (Inr final, w, calls, sent) \<Rightarrow>
             (let final_result = (case final of None \<Rightarrow> subagent_fallback | Some c \<Rightarrow> c)
              in case announce_result task_id label task final_result og ''ok''
                        (mgr\<lparr>sm_world := w,
                             sm_bus := publish_all_outbound sent (sm_bus mgr)\<rparr>) of
                   (r, mgr1) \<Rightarrow> (r, mgr1, calls)))"

definition run_subagent ::
  "('w, chat_message list, 'a) collaborators \<Rightarrow> ('w, 'cb) SubagentManager \<Rightarrow> string \<Rightarrow> string
     \<Rightarrow> string \<Rightarrow> origin
     \<Rightarrow> (exc + unit) \<times> ('w, 'cb) SubagentManager \<times> (exc + 'a LLMResponse) list" where
  "run_subagent co mgr task_id task label og =
     (case run_subagent_try co mgr task_id task label og of
        (Inr u, mgr1, calls) \<Rightarrow> (Inr (), mgr1, calls)
      | (Inl e, mgr1, calls) \<Rightarrow>
          (let error_msg = subagent_error_prefix @ str_exc e
           in case announce_result task_id label task error_msg og ''error'' mgr1 of
                (r, mgr2) \<Rightarrow> (r, mgr2, calls)))"

text \<open>
  Collaborators that are deaf to the registry they are handed: \<open>handed_only reg co\<close> behaves
  on every call as \<open>co\<close> does when handed \<open>reg\<close>. A run that is the same with \<open>co\<close> and
  with \<open>handed_only reg co\<close>, for every \<open>co\<close>, hands \<open>reg\<close> and nothing else to \<open>chat\<close> and
  \<open>execute\<close>.
\<close>

definition handed_only ::
  "ToolRegistry \<Rightarrow> ('w, 'm, 'a) collaborators \<Rightarrow> ('w, 'm, 'a) collaborators" where
  "handed_only reg co =
     co\<lparr>chat := (\<lambda>messages tools. chat co messages reg),
        execute := (\<lambda>tools. execute co reg)\<rparr>"

section \<open>LiteLLM provider (\<open>providers/litellm_provider.py\<close>)\<close>






















section \<open>Scripted collaborators for concrete runs\<close>

text \<open>
  A provider that replays a script: the world is the list of outcomes still to come, and
  every \<open>chat\<close> call takes the next one. Tools always succeed and send nothing. The
  context builder keeps a plain list of role-tagged messages.
\<close>

definition example_names :: "tool \<Rightarrow> string" where
  "example_names t =
     (case t of ReadFileTool \<Rightarrow> ''read_file'' | WriteFileTool \<Rightarrow> ''write_file''
      | EditFileTool \<Rightarrow> ''edit_file'' | ListDirTool \<Rightarrow> ''list_dir'' | ExecTool d \<Rightarrow> ''exec''
      | WebSearchTool k \<Rightarrow> ''web_search'' | WebFetchTool \<Rightarrow> ''web_fetch''
      | MessageTool \<Rightarrow> ''message'' | SpawnTool \<Rightarrow> ''spawn'')"

definition scripted_provider ::
  "((exc + unit LLMResponse) list, chat_message list, unit) collaborators" where
  "scripted_provider =
     \<lparr>chat = (\<lambda>messages tools model script.
                case script of [] \<Rightarrow> (Inl (Exception ''no response''), [])
                | r # rest \<Rightarrow> (r, rest)),
      execute = (\<lambda>tools name arguments script. (Inr (''ran '' @ name), script, [])),
      json_dumps = (\<lambda>arguments. ''{}''),
      declared_name = example_names\<rparr>"

definition plain_context :: "chat_message list ContextBuilder" where
  "plain_context =
     \<lparr>build_messages = (\<lambda>history current media.
         map (\<lambda>(role, content). if role = ''user'' then UserMessage content
                                 else AssistantMessage content []) history
         @ [UserMessage current]),
      add_assistant_message = (\<lambda>messages content tool_calls.
         messages @ [AssistantMessage (case content of None \<Rightarrow> [] | Some c \<Rightarrow> c) tool_calls]),
      add_tool_result = (\<lambda>messages tool_call_id name result.
         messages @ [ToolMessage tool_call_id name result])\<rparr>"

definition calls_echo :: "unit LLMResponse" where
  "calls_echo = \<lparr>resp_content = None,
      resp_tool_calls = [\<lparr>tc_id = ''call_1'', tc_name = ''echo'', tc_arguments = ()\<rparr>],
      resp_finish_reason = ''tool_calls'', resp_usage = []\<rparr>"

definition answers :: "string \<Rightarrow> unit LLMResponse" where
  "answers c = \<lparr>resp_content = Some c, resp_tool_calls = [], resp_finish_reason = ''stop'', resp_usage = []\<rparr>"

definition agent_with :: "(exc + unit LLMResponse) list \<Rightarrow> int \<Rightarrow> ((exc + unit LLMResponse) list, nat) AgentLoop" where
  "agent_with script n =
     \<lparr>ag_world = script, ag_bus = MessageBus_init, ag_sessions = Map.empty,
      ag_tools = Map.empty, ag_model = ''model'', ag_max_iterations = n,
      ag_message_context = (''cli'', ''direct''), ag_spawn_context = (''cli'', ''direct''),
      ag_running = True\<rparr>"

definition user_asks :: InboundMessage where
  "user_asks = \<lparr>in_channel = ''cli'', in_sender_id = ''user'', in_chat_id = ''direct'',
                 in_content = ''2+2?'', in_media = []\<rparr>"

definition subagent_reports :: InboundMessage where
  "subagent_reports = \<lparr>in_channel = ''system'', in_sender_id = ''subagent'',
      in_chat_id = ''telegram:42'', in_content = ''done'', in_media = []\<rparr>"

text \<open>
  The same provider with a message tool at work: executing the tool registered as
  \<open>message\<close> sends its argument to the chat \<open>cli\<close>/\<open>direct\<close> and reports \<open>sent\<close>; the agent
  has the default tools registered.
\<close>

definition messaging_provider ::
  "((exc + string LLMResponse) list, chat_message list, string) collaborators" where
  "messaging_provider =
     \<lparr>chat = (\<lambda>messages tools model script.
                case script of [] \<Rightarrow> (Inl (Exception ''no response''), [])
                | r # rest \<Rightarrow> (r, rest)),
      execute = (\<lambda>tools name arguments script.
                if tools name = Some MessageTool
                then (Inr ''sent'', script, [mk_outbound ''cli'' ''direct'' arguments])
                else (Inr (''ran '' @ name), script, [])),
      json_dumps = (\<lambda>arguments. arguments),
      declared_name = example_names\<rparr>"

definition calls_message :: "string LLMResponse" where
  "calls_message = \<lparr>resp_content = None,
      resp_tool_calls = [\<lparr>tc_id = ''call_1'', tc_name = ''message'',
                          tc_arguments = ''working on it''\<rparr>],
      resp_finish_reason = ''tool_calls'', resp_usage = []\<rparr>"

definition says :: "string \<Rightarrow> string LLMResponse" where
  "says c = \<lparr>resp_content = Some c, resp_tool_calls = [], resp_finish_reason = ''stop'',
             resp_usage = []\<rparr>"

definition default_agent ::
  "(exc + string LLMResponse) list \<Rightarrow> ((exc + string LLMResponse) list, nat) AgentLoop" where
  "default_agent script =
     \<lparr>ag_world = script, ag_bus = MessageBus_init, ag_sessions = Map.empty,
      ag_tools = register_default_tools example_names ''/ws'' None, ag_model = ''model'',
      ag_max_iterations = 20,
      ag_message_context = (''cli'', ''direct''), ag_spawn_context = (''cli'', ''direct''),
      ag_running = True\<rparr>"

definition manager_with ::
  "(exc + unit LLMResponse) list \<Rightarrow> ((exc + unit LLMResponse) list, nat) SubagentManager" where
  "manager_with script =
     \<lparr>sm_world = script, sm_bus = MessageBus_init, sm_workspace = ''/ws'', sm_model = ''model'',
      sm_brave_api_key = None, sm_running_tasks = Map.empty, sm_scheduled = []\<rparr>"

definition colliding_requests :: "spawn_request list" where
  "colliding_requests =
     [\<lparr>rq_uuid4 = ''deadbeef-0000-4000-8000-000000000001'', rq_task = ''first'', rq_label = None,
       rq_channel = ''cli'', rq_chat_id = ''direct''\<rparr>,
      \<lparr>rq_uuid4 = ''deadbeef-9999-4999-b999-999999999999'', rq_task = ''second'', rq_label = None,
       rq_channel = ''cli'', rq_chat_id = ''direct''\<rparr>]"

definition separate_requests :: "spawn_request list" where
  "separate_requests =
     [\<lparr>rq_uuid4 = ''0a1b2c3d-0000-4000-8000-000000000001'', rq_task = ''first'', rq_label = None,
       rq_channel = ''cli'', rq_chat_id = ''direct''\<rparr>,
      \<lparr>rq_uuid4 = ''4e5f6a7b-9999-4999-b999-999999999999'', rq_task = ''second'', rq_label = None,
       rq_channel = ''cli'', rq_chat_id = ''direct''\<rparr>]"






section \<open>Properties\<close>

lemma py_split1_append:
  "sep \<notin> set a \<Longrightarrow> py_split1 sep (a @ sep # b) = [a, b]"
proof -
  assume a: "sep \<notin> set a"
  then have "takeWhile (\<lambda>c. c \<noteq> sep) (a @ sep # b) = a"
    by (induction a) auto
  moreover from a have "dropWhile (\<lambda>c. c \<noteq> sep) (a @ sep # b) = sep # b"
    by (induction a) auto
  ultimately show ?thesis
    by (simp add: py_split1_def)
qed

text \<open>
  C3. Encoding an origin as \<open>channel + ":" + chat_id\<close> and parsing it back by splitting
  on the first \<open>:\<close> does not recover every origin: a channel that itself contains \<open>:\<close>
  is cut at its own first colon.
\<close>

theorem announce_parse_roundtrip_counterexample:
  "parse_origin (announce_chat_id \<lparr>origin_channel = ''a:b'', origin_chat_id = ''c''\<rparr>)
     = \<lparr>origin_channel = ''a'', origin_chat_id = ''b:c''\<rparr>
   \<and> parse_origin (announce_chat_id \<lparr>origin_channel = ''a:b'', origin_chat_id = ''c''\<rparr>)
     \<noteq> \<lparr>origin_channel = ''a:b'', origin_chat_id = ''c''\<rparr>"
  by (simp add: parse_origin_def announce_chat_id_def py_in_def py_split1_def)

text \<open>
  C3 (amended). When the origin channel contains no \<open>:\<close>, parsing the encoded chat id
  recovers exactly the origin channel and chat id, whatever the chat id contains
  (colons included).
\<close>

theorem announce_parse_roundtrip:
  "CHR '':'' \<notin> set (origin_channel og) \<Longrightarrow> parse_origin (announce_chat_id og) = og"
  by (simp add: parse_origin_def announce_chat_id_def py_in_def py_split1_append)

theorem announce_parse_roundtrip_witness:
  "CHR '':'' \<notin> set ''telegram''
   \<and> parse_origin (announce_chat_id \<lparr>origin_channel = ''telegram'', origin_chat_id = ''12:34''\<rparr>)
       = \<lparr>origin_channel = ''telegram'', origin_chat_id = ''12:34''\<rparr>"
  using announce_parse_roundtrip
    [of "\<lparr>origin_channel = ''telegram'', origin_chat_id = ''12:34''\<rparr>"]
  by simp


subsection \<open>Message bus\<close>

lemma subscribers_get_subscribe:
  "subscribers_get (subscribe_outbound ch cb bus) c =
     (if c = ch then subscribers_get bus ch @ [cb] else subscribers_get bus c)"
  by (auto simp: subscribers_get_def subscribe_outbound_def Let_def split: option.splits)

lemma subscribers_get_subscribe_all:
  "subscribers_get (subscribe_all regs bus) c =
     subscribers_get bus c @ map snd (filter (\<lambda>r. fst r = c) regs)"
  by (induction regs bus rule: subscribe_all.induct) (auto simp: subscribers_get_subscribe)

lemma subscribers_get_init: "subscribers_get MessageBus_init c = []"
  by (simp add: subscribers_get_def MessageBus_init_def)

lemma subscribers_get_outbound_upd:
  "subscribers_get (bus\<lparr>outbound := q\<rparr>) c = subscribers_get bus c"
  by (simp add: subscribers_get_def)

lemma world_after_append:
  "world_after call w (a @ b) = world_after call (world_after call w a) b"
  by (simp add: world_after_def)

lemma raised_by_append:
  "raised_by call w (a @ b) = raised_by call w a @ raised_by call (world_after call w a) b"
proof -
  let ?f = "\<lambda>js w0 i. case fst (call (fst (js ! i)) (snd (js ! i)) (world_after call w0 (take i js))) of
                         None \<Rightarrow> [] | Some e \<Rightarrow> [e]"
  have split: "[0..<length (a @ b)] = [0..<length a] @ map (\<lambda>i. i + length a) [0..<length b]"
    by (simp add: map_add_upt upt_add_eq_append [of 0 "length a" "length b", simplified] add.commute)
  have l: "map (?f (a @ b) w) [0..<length a] = map (?f a w) [0..<length a]"
    by (rule map_cong) (simp_all add: nth_append)
  have r: "map (?f (a @ b) w) (map (\<lambda>i. i + length a) [0..<length b])
            = map (?f b (world_after call w a)) [0..<length b]"
    by (simp add: o_def nth_append world_after_append)
  show ?thesis
    unfolding raised_by_def split map_append concat_append l r ..
qed

lemma raised_by_Cons:
  "raised_by call w ((cb, m) # js) =
     (case fst (call cb m w) of None \<Rightarrow> [] | Some e \<Rightarrow> [e]) @ raised_by call (snd (call cb m w)) js"
proof -
  have one: "raised_by call w [(cb, m)] = (case fst (call cb m w) of None \<Rightarrow> [] | Some e \<Rightarrow> [e])"
    by (simp add: raised_by_def world_after_def)
  have w1: "world_after call w [(cb, m)] = snd (call cb m w)"
    by (simp add: world_after_def)
  from raised_by_append [of call w "[(cb, m)]" js] one w1 show ?thesis by simp
qed

lemma world_after_Cons:
  "world_after call w ((cb, m) # js) = world_after call (snd (call cb m w)) js"
  by (simp add: world_after_def)

lemma world_after_step:
  "world_after call w (j # js) = world_after call (snd (call (fst j) (snd j) w)) js"
  by (cases j) (simp add: world_after_def)

lemma deliver_state:
  "deliver call msg cbs st =
     st\<lparr>ds_world := world_after call (ds_world st) (map (\<lambda>cb. (cb, msg)) cbs),
        ds_invoked := ds_invoked st @ map (\<lambda>cb. (cb, msg)) cbs,
        ds_logged := ds_logged st @ raised_by call (ds_world st) (map (\<lambda>cb. (cb, msg)) cbs)\<rparr>"
proof (induction cbs arbitrary: st)
  case Nil
  then show ?case by (simp add: world_after_def raised_by_def)
next
  case (Cons cb cbs)
  obtain r w1 where c: "call cb msg (ds_world st) = (r, w1)"
    by (cases "call cb msg (ds_world st)") auto
  show ?case
  proof (cases r)
    case None
    with c Cons [of "st\<lparr>ds_world := w1, ds_invoked := ds_invoked st @ [(cb, msg)]\<rparr>"]
    show ?thesis by (simp add: world_after_Cons raised_by_Cons)
  next
    case (Some e)
    with c Cons [of "st\<lparr>ds_world := w1, ds_invoked := ds_invoked st @ [(cb, msg)],
                        ds_logged := ds_logged st @ [e]\<rparr>"]
    show ?thesis by (simp add: world_after_Cons raised_by_Cons)
  qed
qed

lemma awaits_of_outbound_upd: "awaits_of (bus\<lparr>outbound := q\<rparr>) msgs = awaits_of bus msgs"
  by (simp add: awaits_of_def subscribers_get_outbound_upd)

lemma dispatch_outbound_state:
  "dispatch_outbound call n bus st =
     (bus\<lparr>outbound := drop n (outbound bus)\<rparr>,
      st\<lparr>ds_world := world_after call (ds_world st) (awaits_of bus (take n (outbound bus))),
         ds_invoked := ds_invoked st @ awaits_of bus (take n (outbound bus)),
         ds_logged := ds_logged st
            @ raised_by call (ds_world st) (awaits_of bus (take n (outbound bus)))\<rparr>)"
proof (induction n arbitrary: bus st)
  case 0
  then show ?case by (simp add: awaits_of_def world_after_def raised_by_def)
next
  case (Suc n)
  show ?case
  proof (cases "outbound bus")
    case Nil
    with Suc [of bus st] show ?thesis by simp
  next
    case (Cons msg rest)
    have a: "awaits_of bus (msg # take n rest)
              = map (\<lambda>cb. (cb, msg)) (subscribers_get bus (out_channel msg)) @ awaits_of bus (take n rest)"
      by (simp add: awaits_of_def)
    from Cons Suc [of "bus\<lparr>outbound := rest\<rparr>" "dispatch_message call bus msg st"]
    show ?thesis
      by (simp add: dispatch_message_def deliver_state awaits_of_outbound_upd a
            world_after_append raised_by_append)
  qed
qed


lemma raised_by_mem:
  assumes "i < length awaits"
    and "fst (call (fst (awaits ! i)) (snd (awaits ! i)) (world_after call w (take i awaits))) = Some e"
  shows "e \<in> set (raised_by call w awaits)"
proof -
  from assms(1) have "i \<in> set [0..<length awaits]" by simp
  with assms(2) show ?thesis
    by (auto simp: raised_by_def intro!: bexI [of _ i])
qed

text \<open>
  C6. After any sequence \<open>regs\<close> of \<open>subscribe_outbound\<close> calls on a new bus, dispatching
  a message awaits exactly the callbacks registered for the message's channel, once per
  registration and in registration order: the world is the one those awaits leave, the
  exceptions logged are the ones they raised, and no other callback has touched the world.
  When no callback was registered for that channel nothing is awaited, nothing is logged
  and the world is untouched.
\<close>

theorem dispatch_exact_subscribers:
  "dispatch_message call (subscribe_all regs MessageBus_init) msg (dispatch_init w)
     = \<lparr>ds_world = world_after call w
                     (map (\<lambda>cb. (cb, msg)) (map snd (filter (\<lambda>r. fst r = out_channel msg) regs))),
        ds_invoked = map (\<lambda>cb. (cb, msg)) (map snd (filter (\<lambda>r. fst r = out_channel msg) regs)),
        ds_logged = raised_by call w
                      (map (\<lambda>cb. (cb, msg)) (map snd (filter (\<lambda>r. fst r = out_channel msg) regs)))\<rparr>
   \<and> (out_channel msg \<notin> fst ` set regs \<longrightarrow>
        dispatch_message call (subscribe_all regs MessageBus_init) msg (dispatch_init w) = dispatch_init w)"
proof -
  have g: "subscribers_get (subscribe_all regs MessageBus_init) (out_channel msg)
             = map snd (filter (\<lambda>r. fst r = out_channel msg) regs)"
    by (simp add: subscribers_get_subscribe_all subscribers_get_init)
  have e: "out_channel msg \<notin> fst ` set regs \<Longrightarrow> filter (\<lambda>r. fst r = out_channel msg) regs = []"
    by (force simp: filter_empty_conv image_iff)
  have none: "world_after call w [] = w" "raised_by call w [] = []"
    by (simp_all add: world_after_def raised_by_def)
  show ?thesis
    by (auto simp: dispatch_message_def g deliver_state dispatch_init_def e none)
qed

theorem dispatch_exact_subscribers_witness:
  "out_channel (mk_outbound ''cli'' ''direct'' ''hi'') \<notin> fst ` set [(''telegram'', 1::nat), (''whatsapp'', 2)]
   \<and> dispatch_message (\<lambda>cb m w. (None, w @ [(cb, out_content m)]))
        (subscribe_all [(''telegram'', 1::nat), (''whatsapp'', 2)] MessageBus_init)
        (mk_outbound ''cli'' ''direct'' ''hi'') (dispatch_init [])
      = dispatch_init []
   \<and> dispatch_message (\<lambda>cb m w. (None, w @ [(cb, out_content m)]))
        (subscribe_all [(''telegram'', 1::nat), (''whatsapp'', 2), (''telegram'', 3)] MessageBus_init)
        (mk_outbound ''telegram'' ''42'' ''hi'') (dispatch_init [])
      = \<lparr>ds_world = [(1, ''hi''), (3, ''hi'')],
         ds_invoked = [(1, mk_outbound ''telegram'' ''42'' ''hi''), (3, mk_outbound ''telegram'' ''42'' ''hi'')],
         ds_logged = []\<rparr>"
  using dispatch_exact_subscribers
      [of "\<lambda>cb m w. (None, w @ [(cb, out_content m)])" "[(''telegram'', 1::nat), (''whatsapp'', 2)]"
          "mk_outbound ''cli'' ''direct'' ''hi''" "[]"]
    dispatch_exact_subscribers
      [of "\<lambda>cb m w. (None, w @ [(cb, out_content m)])"
          "[(''telegram'', 1::nat), (''whatsapp'', 2), (''telegram'', 3)]"
          "mk_outbound ''telegram'' ''42'' ''hi''" "[]"]
  by (simp add: mk_outbound_def world_after_def raised_by_def dispatch_init_def)

text \<open>
  C7. Whatever the callbacks do, \<open>n\<close> iterations of the dispatch loop take the first \<open>n\<close>
  queued messages and make every await that is due for them, in order. When one of these
  awaits raises, the exception is logged, and the world at the end is the one reached by
  making all the awaits that follow it, for the same message and for the later ones, from
  the world the raising callback left.
\<close>

theorem dispatch_survives_callback_failure:
  "dispatch_outbound call n bus st =
     (bus\<lparr>outbound := drop n (outbound bus)\<rparr>,
      st\<lparr>ds_world := world_after call (ds_world st) (awaits_of bus (take n (outbound bus))),
         ds_invoked := ds_invoked st @ awaits_of bus (take n (outbound bus)),
         ds_logged := ds_logged st
            @ raised_by call (ds_world st) (awaits_of bus (take n (outbound bus)))\<rparr>)
   \<and> (\<forall>i e. i < length (awaits_of bus (take n (outbound bus)))
         \<and> fst (call (fst (awaits_of bus (take n (outbound bus)) ! i))
                     (snd (awaits_of bus (take n (outbound bus)) ! i))
                     (world_after call (ds_world st)
                        (take i (awaits_of bus (take n (outbound bus)))))) = Some e
       \<longrightarrow> e \<in> set (ds_logged (snd (dispatch_outbound call n bus st)))
         \<and> ds_world (snd (dispatch_outbound call n bus st))
             = world_after call
                 (snd (call (fst (awaits_of bus (take n (outbound bus)) ! i))
                            (snd (awaits_of bus (take n (outbound bus)) ! i))
                            (world_after call (ds_world st)
                               (take i (awaits_of bus (take n (outbound bus)))))))
                 (drop (Suc i) (awaits_of bus (take n (outbound bus)))))"
proof -
  let ?jobs = "awaits_of bus (take n (outbound bus))"
  note s = dispatch_outbound_state [of call n bus st]
  have "e \<in> set (ds_logged (snd (dispatch_outbound call n bus st)))
        \<and> ds_world (snd (dispatch_outbound call n bus st))
             = world_after call
                 (snd (call (fst (?jobs ! i)) (snd (?jobs ! i))
                            (world_after call (ds_world st) (take i ?jobs))))
                 (drop (Suc i) ?jobs)"
    if i: "i < length ?jobs"
      and r: "fst (call (fst (?jobs ! i)) (snd (?jobs ! i))
                     (world_after call (ds_world st) (take i ?jobs))) = Some e"
    for i e
  proof -
    from i have d: "?jobs = take i ?jobs @ (fst (?jobs ! i), snd (?jobs ! i)) # drop (Suc i) ?jobs"
      by (simp add: id_take_nth_drop)
    have "world_after call (ds_world st) ?jobs
           = world_after call
                 (snd (call (fst (?jobs ! i)) (snd (?jobs ! i))
                            (world_after call (ds_world st) (take i ?jobs))))
                 (drop (Suc i) ?jobs)"
      by (subst d) (simp add: world_after_append world_after_step)
    moreover have "e \<in> set (raised_by call (ds_world st) ?jobs)"
      using i r by (rule raised_by_mem [where call = call and w = "ds_world st"])
    ultimately show ?thesis using s by simp
  qed
  with s show ?thesis by blast
qed

theorem dispatch_survives_callback_failure_witness:
  "dispatch_outbound
      (\<lambda>cb m w. (if cb = (1::nat) then Some (Exception ''boom'') else None, w @ [(cb, out_content m)]))
      2
      (publish_outbound (mk_outbound ''tg'' ''7'' ''b'')
        (publish_outbound (mk_outbound ''tg'' ''7'' ''a'')
          (subscribe_all [(''tg'', 1), (''tg'', 2)] MessageBus_init)))
      (dispatch_init [])
   = ((subscribe_all [(''tg'', 1), (''tg'', 2)] MessageBus_init)\<lparr>outbound := []\<rparr>,
      \<lparr>ds_world = [(1, ''a''), (2, ''a''), (1, ''b''), (2, ''b'')],
       ds_invoked = [(1, mk_outbound ''tg'' ''7'' ''a''), (2, mk_outbound ''tg'' ''7'' ''a''),
                     (1, mk_outbound ''tg'' ''7'' ''b''), (2, mk_outbound ''tg'' ''7'' ''b'')],
       ds_logged = [Exception ''boom'', Exception ''boom'']\<rparr>)
   \<and> fst ((\<lambda>cb m w. (if cb = (1::nat) then Some (Exception ''boom'') else None,
                       w @ [(cb, out_content m)]))
            1 (mk_outbound ''tg'' ''7'' ''a'') []) = Some (Exception ''boom'')"
  using dispatch_survives_callback_failure
      [of "\<lambda>cb m w. (if cb = (1::nat) then Some (Exception ''boom'') else None, w @ [(cb, out_content m)])"
          2
          "publish_outbound (mk_outbound ''tg'' ''7'' ''b'')
            (publish_outbound (mk_outbound ''tg'' ''7'' ''a'')
              (subscribe_all [(''tg'', 1), (''tg'', 2)] MessageBus_init))"
          "dispatch_init []", THEN conjunct1]
  by (simp add: publish_outbound_def subscribe_outbound_def MessageBus_init_def
      subscribers_get_def dispatch_init_def mk_outbound_def awaits_of_def world_after_def
      raised_by_def Let_def)

subsection \<open>Agent loop\<close>

lemma publish_all_outbound_fields:
  "outbound (publish_all_outbound msgs bus) = outbound bus @ msgs"
  "inbound (publish_all_outbound msgs bus) = inbound bus"
  "outbound_subscribers (publish_all_outbound msgs bus) = outbound_subscribers bus"
  by (induction msgs arbitrary: bus) (simp_all add: publish_all_outbound_def publish_outbound_def)

lemma publish_all_outbound_Nil: "publish_all_outbound [] bus = bus"
  by (simp add: publish_all_outbound_def)

lemma execute_tool_calls_sent:
  "execute_tool_calls co cx tools tcs m w sent = (r, w', sent') \<Longrightarrow>
     \<exists>out. sent' = sent @ out
        \<and> (\<forall>x\<in>set out. \<exists>ts name arguments v. x \<in> set (snd (snd (execute co ts name arguments v))))"
proof (induction tcs arbitrary: m w sent)
  case Nil
  then show ?case by simp
next
  case (Cons tc tcs)
  obtain er w1 out1 where e: "execute co tools (tc_name tc) (tc_arguments tc) w = (er, w1, out1)"
    by (cases "execute co tools (tc_name tc) (tc_arguments tc) w") auto
  have mem: "\<forall>x\<in>set out1. \<exists>ts name arguments v. x \<in> set (snd (snd (execute co ts name arguments v)))"
  proof
    fix x assume "x \<in> set out1"
    with e have "x \<in> set (snd (snd (execute co tools (tc_name tc) (tc_arguments tc) w)))" by simp
    then show "\<exists>ts name arguments v. x \<in> set (snd (snd (execute co ts name arguments v)))" by blast
  qed
  show ?case
  proof (cases er)
    case (Inl ex)
    with Cons.prems e have "sent' = sent @ out1" by simp
    with mem show ?thesis by blast
  next
    case (Inr result)
    with Cons.prems e have
      "execute_tool_calls co cx tools tcs (add_tool_result cx m (tc_id tc) (tc_name tc) result) w1
         (sent @ out1) = (r, w', sent')" by simp
    from Cons.IH [OF this] obtain out where
      o: "sent' = (sent @ out1) @ out"
         "\<forall>x\<in>set out. \<exists>ts name arguments v. x \<in> set (snd (snd (execute co ts name arguments v)))"
      by blast
    from o(1) have "sent' = sent @ (out1 @ out)" by simp
    moreover from mem o(2)
    have "\<forall>x\<in>set (out1 @ out). \<exists>ts name arguments v. x \<in> set (snd (snd (execute co ts name arguments v)))"
      by auto
    ultimately show ?thesis by blast
  qed
qed

lemma tool_loop_step:
  assumes "tool_loop co cx tools model N i m w calls sent = (r, w', calls', sent')"
  obtains (stop) "\<not> i < N" "r = Inr None" "w' = w" "calls' = calls" "sent' = sent"
  | (chat_raised) e where "i < N" "chat co m tools model w = (Inl e, w')" "r = Inl e"
      "calls' = calls @ [Inl e]" "sent' = sent"
  | (answer) response where "i < N" "chat co m tools model w = (Inr response, w')"
      "\<not> has_tool_calls response" "r = Inr (resp_content response)"
      "calls' = calls @ [Inr response]" "sent' = sent"
  | (tool_raised) response w1 e where "i < N" "chat co m tools model w = (Inr response, w1)"
      "has_tool_calls response"
      "execute_tool_calls co cx tools (resp_tool_calls response)
         (add_assistant_message cx m (resp_content response)
            (map (to_tool_call_dict (json_dumps co)) (resp_tool_calls response))) w1 sent
       = (Inl e, w', sent')"
      "r = Inl e" "calls' = calls @ [Inr response]"
  | (again) response w1 m2 w2 sent2 where "i < N" "chat co m tools model w = (Inr response, w1)"
      "has_tool_calls response"
      "execute_tool_calls co cx tools (resp_tool_calls response)
         (add_assistant_message cx m (resp_content response)
            (map (to_tool_call_dict (json_dumps co)) (resp_tool_calls response))) w1 sent
       = (Inr m2, w2, sent2)"
      "tool_loop co cx tools model N (i + 1) m2 w2 (calls @ [Inr response]) sent2
       = (r, w', calls', sent')"
  using assms
  by (subst (asm) tool_loop.simps) (auto split: if_splits prod.splits sum.splits)


lemma tool_loop_calls:
  "tool_loop co cx tools model N i m w calls sent = (r, w', calls', sent') \<Longrightarrow>
     \<exists>new. calls' = calls @ new \<and> int (length new) \<le> max 0 (N - i)
        \<and> (\<forall>fc. r = Inr fc \<longrightarrow> (\<forall>c\<in>set new. \<exists>resp. c = Inr resp \<and> has_tool_calls resp) \<longrightarrow> fc = None)"
proof (induction co cx tools model N i m w calls sent arbitrary: r w' calls' sent'
       rule: tool_loop.induct)
  case (1 co cx tools model N i m w calls sent)
  from "1.prems" show ?case
  proof (cases rule: tool_loop_step)
    case stop
    then show ?thesis by simp
  next
    case (chat_raised e)
    then show ?thesis by simp
  next
    case (answer response)
    then show ?thesis by simp
  next
    case (tool_raised response w1 e)
    then show ?thesis by simp
  next
    case (again response w1 m2 w2 sent2)
    from "1.IH" [OF again(1) again(2) [symmetric] refl again(3) again(4) [symmetric] refl refl again(5)]
    obtain new where n: "calls' = (calls @ [Inr response]) @ new"
       "int (length new) \<le> max 0 (N - (i + 1))"
       "\<forall>fc. r = Inr fc \<longrightarrow> (\<forall>c\<in>set new. \<exists>resp. c = Inr resp \<and> has_tool_calls resp) \<longrightarrow> fc = None"
      by blast
    show ?thesis
      apply (rule exI [of _ "Inr response # new"])
      using n again(1) by auto
  qed
qed

lemma tool_loop_sent:
  "tool_loop co cx tools model N i m w calls sent = (r, w', calls', sent') \<Longrightarrow>
     \<exists>out. sent' = sent @ out
        \<and> (\<forall>x\<in>set out. \<exists>ts name arguments v. x \<in> set (snd (snd (execute co ts name arguments v))))"
proof (induction co cx tools model N i m w calls sent arbitrary: r w' calls' sent'
       rule: tool_loop.induct)
  case (1 co cx tools model N i m w calls sent)
  from "1.prems" show ?case
  proof (cases rule: tool_loop_step)
    case stop
    then show ?thesis by simp
  next
    case (chat_raised e)
    then show ?thesis by simp
  next
    case (answer response)
    then show ?thesis by simp
  next
    case (tool_raised response w1 e)
    from execute_tool_calls_sent [OF tool_raised(4)] show ?thesis .
  next
    case (again response w1 m2 w2 sent2)
    from execute_tool_calls_sent [OF again(4)] obtain out1 where
      o1: "sent2 = sent @ out1"
          "\<forall>x\<in>set out1. \<exists>ts name arguments v. x \<in> set (snd (snd (execute co ts name arguments v)))"
      by blast
    from "1.IH" [OF again(1) again(2) [symmetric] refl again(3) again(4) [symmetric] refl refl again(5)]
    obtain out2 where
      o2: "sent' = sent2 @ out2"
          "\<forall>x\<in>set out2. \<exists>ts name arguments v. x \<in> set (snd (snd (execute co ts name arguments v)))"
      by blast
    from o1(1) o2(1) have "sent' = sent @ (out1 @ out2)" by simp
    moreover from o1(2) o2(2)
    have "\<forall>x\<in>set (out1 @ out2). \<exists>ts name arguments v. x \<in> set (snd (snd (execute co ts name arguments v)))"
      by auto
    ultimately show ?thesis by blast
  qed
qed


lemma set_tool_contexts_fields:
  "ag_world (set_tool_contexts c i ag) = ag_world ag"
  "ag_bus (set_tool_contexts c i ag) = ag_bus ag"
  "ag_sessions (set_tool_contexts c i ag) = ag_sessions ag"
  "ag_tools (set_tool_contexts c i ag) = ag_tools ag"
  "ag_model (set_tool_contexts c i ag) = ag_model ag"
  "ag_max_iterations (set_tool_contexts c i ag) = ag_max_iterations ag"
  by (simp_all add: set_tool_contexts_def Let_def)

lemma tool_loop_from_start:
  assumes "tool_loop co cx tools model N 0 m w [] [] = (r, w', calls, sent)"
  shows "int (length calls) \<le> max 0 N"
    and "r = Inr fc \<Longrightarrow> \<forall>c\<in>set calls. \<exists>resp. c = Inr resp \<and> has_tool_calls resp \<Longrightarrow> fc = None"
    and "\<forall>x\<in>set sent. \<exists>ts name arguments v. x \<in> set (snd (snd (execute co ts name arguments v)))"
  using tool_loop_calls [OF assms] tool_loop_sent [OF assms] by auto

lemma process_system_message_cases:
  assumes "process_system_message co cx ag msg = (r, ag', calls)"
  obtains (raised) e w sent where
      "tool_loop co cx (ag_tools ag) (ag_model ag) (ag_max_iterations ag) 0
         (build_messages cx (get_or_create (ag_sessions ag)
            (origin_channel (parse_origin (in_chat_id msg)) @ '':'' @ origin_chat_id (parse_origin (in_chat_id msg))))
            (in_content msg) None) (ag_world ag) [] [] = (Inl e, w, calls, sent)"
      "r = Inl e"
      "ag' = (set_tool_contexts (origin_channel (parse_origin (in_chat_id msg)))
                (origin_chat_id (parse_origin (in_chat_id msg))) ag)
              \<lparr>ag_world := w, ag_bus := publish_all_outbound sent (ag_bus ag)\<rparr>"
  | (returned) final w sent where
      "tool_loop co cx (ag_tools ag) (ag_model ag) (ag_max_iterations ag) 0
         (build_messages cx (get_or_create (ag_sessions ag)
            (origin_channel (parse_origin (in_chat_id msg)) @ '':'' @ origin_chat_id (parse_origin (in_chat_id msg))))
            (in_content msg) None) (ag_world ag) [] [] = (Inr final, w, calls, sent)"
      "r = Inr (Some (mk_outbound (origin_channel (parse_origin (in_chat_id msg)))
                 (origin_chat_id (parse_origin (in_chat_id msg)))
                 (case final of None \<Rightarrow> system_fallback | Some c \<Rightarrow> c)))"
      "ag' = (set_tool_contexts (origin_channel (parse_origin (in_chat_id msg)))
                (origin_chat_id (parse_origin (in_chat_id msg))) ag)
              \<lparr>ag_world := w, ag_bus := publish_all_outbound sent (ag_bus ag),
               ag_sessions := (ag_sessions ag)
                 (origin_channel (parse_origin (in_chat_id msg)) @ '':'' @ origin_chat_id (parse_origin (in_chat_id msg)) \<mapsto>
                    get_or_create (ag_sessions ag)
                      (origin_channel (parse_origin (in_chat_id msg)) @ '':'' @ origin_chat_id (parse_origin (in_chat_id msg)))
                    @ [(''user'', system_marker @ in_sender_id msg @ ''] '' @ in_content msg),
                       (''assistant'', case final of None \<Rightarrow> system_fallback | Some c \<Rightarrow> c)])\<rparr>"
  using assms
  by (auto simp: process_system_message_def Let_def set_tool_contexts_fields add_message_def save_def
           split: prod.splits sum.splits)

lemma process_user_message_cases:
  assumes "process_message co cx ag msg = (r, ag', calls)" and "in_channel msg \<noteq> ''system''"
  obtains (raised) e w sent where
      "tool_loop co cx (ag_tools ag) (ag_model ag) (ag_max_iterations ag) 0
         (build_messages cx (get_or_create (ag_sessions ag) (session_key msg)) (in_content msg)
            (if in_media msg \<noteq> [] then Some (in_media msg) else None)) (ag_world ag) [] []
       = (Inl e, w, calls, sent)"
      "r = Inl e"
      "ag' = (set_tool_contexts (in_channel msg) (in_chat_id msg) ag)
               \<lparr>ag_world := w, ag_bus := publish_all_outbound sent (ag_bus ag)\<rparr>"
  | (returned) final w sent where
      "tool_loop co cx (ag_tools ag) (ag_model ag) (ag_max_iterations ag) 0
         (build_messages cx (get_or_create (ag_sessions ag) (session_key msg)) (in_content msg)
            (if in_media msg \<noteq> [] then Some (in_media msg) else None)) (ag_world ag) [] []
       = (Inr final, w, calls, sent)"
      "r = Inr (Some (mk_outbound (in_channel msg) (in_chat_id msg)
                 (case final of None \<Rightarrow> process_fallback | Some c \<Rightarrow> c)))"
      "ag' = (set_tool_contexts (in_channel msg) (in_chat_id msg) ag)
              \<lparr>ag_world := w, ag_bus := publish_all_outbound sent (ag_bus ag),
               ag_sessions := (ag_sessions ag)
                 (session_key msg \<mapsto>
                    get_or_create (ag_sessions ag) (session_key msg)
                    @ [(''user'', in_content msg),
                       (''assistant'', case final of None \<Rightarrow> process_fallback | Some c \<Rightarrow> c)])\<rparr>"
  using assms
  by (auto simp: process_message_def Let_def set_tool_contexts_fields add_message_def save_def
           split: prod.splits sum.splits)

lemma process_message_turn:
  assumes "process_message co cx ag msg = (r, ag', calls)"
  shows "\<exists>sent.
     ag_bus ag' = publish_all_outbound sent (ag_bus ag)
     \<and> (\<forall>x\<in>set sent. \<exists>ts name arguments v. x \<in> set (snd (snd (execute co ts name arguments v))))
     \<and> int (length calls) \<le> max 0 (ag_max_iterations ag)
     \<and> ((\<exists>e. r = Inl e)
        \<or> (\<exists>reply. r = Inr (Some reply)
              \<and> ((\<forall>c\<in>set calls. \<exists>resp. c = Inr resp \<and> has_tool_calls resp) \<longrightarrow>
                   out_content reply =
                     (if in_channel msg = ''system'' then system_fallback else process_fallback))))"
proof (cases "in_channel msg = ''system''")
  case True
  with assms have sys: "process_system_message co cx ag msg = (r, ag', calls)"
    by (simp add: process_message_def)
  from sys show ?thesis
  proof (cases rule: process_system_message_cases)
    case (raised e w sent)
    from tool_loop_from_start(1,3) [OF raised(1)] raised(2,3) show ?thesis
      by (intro exI [of _ sent]) (simp add: set_tool_contexts_fields)
  next
    case (returned final w sent)
    from tool_loop_from_start [OF returned(1)] returned(2,3) True show ?thesis
      by (intro exI [of _ sent]) (auto simp: set_tool_contexts_fields mk_outbound_def)
  qed
next
  case False
  from assms False show ?thesis
  proof (cases rule: process_user_message_cases)
    case (raised e w sent)
    from tool_loop_from_start(1,3) [OF raised(1)] raised(2,3) show ?thesis
      by (intro exI [of _ sent]) (simp add: set_tool_contexts_fields)
  next
    case (returned final w sent)
    from tool_loop_from_start [OF returned(1)] returned(2,3) False show ?thesis
      by (intro exI [of _ sent]) (auto simp: set_tool_contexts_fields mk_outbound_def)
  qed
qed


lemmas run_defs = process_message_def process_system_message_def user_asks_def agent_with_def
  scripted_provider_def plain_context_def calls_echo_def answers_def tool_loop.simps
  has_tool_calls_def Let_def set_tool_contexts_def get_or_create_def session_key_def
  add_message_def save_def mk_outbound_def handle_inbound_def publish_outbound_def
  publish_all_outbound_def MessageBus_init_def parse_origin_def py_in_def py_split1_def
  to_tool_call_dict_def

text \<open>
  C1. A turn in which the model calls the message tool leaves more than one outbound
  message for one inbound message: the message the tool sent through the bus, then the
  reply.
\<close>

theorem turn_with_message_tool_counterexample:
  "outbound (ag_bus (default_agent [Inr calls_message, Inr (says ''done'')])) = []
   \<and> fst (process_message messaging_provider plain_context
            (default_agent [Inr calls_message, Inr (says ''done'')]) user_asks)
       = Inr (Some (mk_outbound ''cli'' ''direct'' ''done''))
   \<and> outbound (ag_bus (handle_inbound messaging_provider plain_context
                          (default_agent [Inr calls_message, Inr (says ''done'')]) user_asks))
       = [mk_outbound ''cli'' ''direct'' ''working on it'', mk_outbound ''cli'' ''direct'' ''done'']"
  by (simp add: run_defs default_agent_def messaging_provider_def calls_message_def says_def
        register_default_tools_def register_def ToolRegistry_init_def example_names_def)

text \<open>
  C1 (amended). Processing one inbound message (ordinary or system) makes at most
  \<open>max_iterations\<close> provider calls and returns. During the turn the outbound queue grows
  only by messages that executed tools sent. Then \<open>run\<close> publishes exactly one message of
  its own: the reply, whose content is the fallback text when every provider call returned
  a response carrying tool calls, or, when a collaborator raised, the error message.
\<close>

theorem turn_terminates_within_bound:
  assumes "process_message co cx ag msg = (r, ag', calls)"
  shows "int (length calls) \<le> max 0 (ag_max_iterations ag)
   \<and> (\<exists>sent.
        outbound (ag_bus ag') = outbound (ag_bus ag) @ sent
        \<and> (\<forall>x\<in>set sent. \<exists>tools name arguments w.
               x \<in> set (snd (snd (execute co tools name arguments w))))
        \<and> ((\<exists>reply. r = Inr (Some reply)
               \<and> outbound (ag_bus (handle_inbound co cx ag msg))
                   = outbound (ag_bus ag) @ sent @ [reply]
               \<and> ((\<forall>c\<in>set calls. \<exists>response. c = Inr response \<and> has_tool_calls response) \<longrightarrow>
                     out_content reply =
                       (if in_channel msg = ''system'' then system_fallback else process_fallback)))
           \<or> (\<exists>e. r = Inl e
               \<and> outbound (ag_bus (handle_inbound co cx ag msg))
                   = outbound (ag_bus ag) @ sent
                     @ [mk_outbound (in_channel msg) (in_chat_id msg) (error_prefix @ str_exc e)])))"
proof -
  from process_message_turn [OF assms] obtain sent where
    s: "ag_bus ag' = publish_all_outbound sent (ag_bus ag)"
       "\<forall>x\<in>set sent. \<exists>ts name arguments v. x \<in> set (snd (snd (execute co ts name arguments v)))"
       "int (length calls) \<le> max 0 (ag_max_iterations ag)"
       "(\<exists>e. r = Inl e)
        \<or> (\<exists>reply. r = Inr (Some reply)
              \<and> ((\<forall>c\<in>set calls. \<exists>resp. c = Inr resp \<and> has_tool_calls resp) \<longrightarrow>
                   out_content reply =
                     (if in_channel msg = ''system'' then system_fallback else process_fallback)))"
    by blast
  from s(1) have o: "outbound (ag_bus ag') = outbound (ag_bus ag) @ sent"
    by (simp add: publish_all_outbound_fields)
  from s(4) have "(\<exists>reply. r = Inr (Some reply)
               \<and> outbound (ag_bus (handle_inbound co cx ag msg))
                   = outbound (ag_bus ag) @ sent @ [reply]
               \<and> ((\<forall>c\<in>set calls. \<exists>response. c = Inr response \<and> has_tool_calls response) \<longrightarrow>
                     out_content reply =
                       (if in_channel msg = ''system'' then system_fallback else process_fallback)))
           \<or> (\<exists>e. r = Inl e
               \<and> outbound (ag_bus (handle_inbound co cx ag msg))
                   = outbound (ag_bus ag) @ sent
                     @ [mk_outbound (in_channel msg) (in_chat_id msg) (error_prefix @ str_exc e)])"
  proof
    assume "\<exists>e. r = Inl e"
    then obtain e where "r = Inl e" ..
    with assms o show ?thesis
      by (simp add: handle_inbound_def publish_outbound_def)
  next
    assume "\<exists>reply. r = Inr (Some reply)
              \<and> ((\<forall>c\<in>set calls. \<exists>resp. c = Inr resp \<and> has_tool_calls resp) \<longrightarrow>
                   out_content reply =
                     (if in_channel msg = ''system'' then system_fallback else process_fallback))"
    then obtain reply where "r = Inr (Some reply)"
      "(\<forall>c\<in>set calls. \<exists>resp. c = Inr resp \<and> has_tool_calls resp) \<longrightarrow>
         out_content reply = (if in_channel msg = ''system'' then system_fallback else process_fallback)"
      by blast
    with assms o show ?thesis
      by (simp add: handle_inbound_def publish_outbound_def)
  qed
  with s(2,3) o show ?thesis by blast
qed

theorem turn_terminates_within_bound_witness:
  "process_message scripted_provider plain_context
      (agent_with [Inr calls_echo, Inr calls_echo, Inr (answers ''4'')] 2) user_asks
   = (Inr (Some (mk_outbound ''cli'' ''direct'' process_fallback)),
      (agent_with [Inr calls_echo, Inr calls_echo, Inr (answers ''4'')] 2)
        \<lparr>ag_world := [Inr (answers ''4'')],
         ag_sessions := [''cli:direct'' \<mapsto> [(''user'', ''2+2?''), (''assistant'', process_fallback)]]\<rparr>,
      [Inr calls_echo, Inr calls_echo])
   \<and> int (length [Inr calls_echo, Inr calls_echo :: exc + unit LLMResponse]) \<le> max 0 2
   \<and> has_tool_calls calls_echo
   \<and> outbound (ag_bus (handle_inbound scripted_provider plain_context
         (agent_with [Inr calls_echo, Inr calls_echo, Inr (answers ''4'')] 2) user_asks))
       = [mk_outbound ''cli'' ''direct'' process_fallback]"
proof -
  have run: "process_message scripted_provider plain_context
      (agent_with [Inr calls_echo, Inr calls_echo, Inr (answers ''4'')] 2) user_asks
   = (Inr (Some (mk_outbound ''cli'' ''direct'' process_fallback)),
      (agent_with [Inr calls_echo, Inr calls_echo, Inr (answers ''4'')] 2)
        \<lparr>ag_world := [Inr (answers ''4'')],
         ag_sessions := [''cli:direct'' \<mapsto> [(''user'', ''2+2?''), (''assistant'', process_fallback)]]\<rparr>,
      [Inr calls_echo, Inr calls_echo])"
    by (simp add: run_defs)
  have tc: "has_tool_calls calls_echo"
    by (simp add: has_tool_calls_def calls_echo_def)
  from turn_terminates_within_bound [OF run] run tc show ?thesis
    by (auto simp: agent_with_def MessageBus_init_def)
qed

text \<open>
  C2. A turn that completes (by a final answer or by running out of iterations) changes
  the session store at the resolved session key only, and there appends exactly two
  messages to the session: the \<open>user\<close> message, then the \<open>assistant\<close> message holding the
  reply's content, whatever the number of tool-calling iterations.
\<close>

theorem turn_appends_user_then_assistant:
  assumes "process_message co cx ag msg = (Inr out, ag', calls)"
  shows "\<exists>reply. out = Some reply \<and>
     ag_sessions ag' =
       (if in_channel msg = ''system''
        then (ag_sessions ag)
               (origin_channel (parse_origin (in_chat_id msg)) @ '':''
                  @ origin_chat_id (parse_origin (in_chat_id msg)) \<mapsto>
                get_or_create (ag_sessions ag)
                  (origin_channel (parse_origin (in_chat_id msg)) @ '':''
                     @ origin_chat_id (parse_origin (in_chat_id msg)))
                @ [(''user'', system_marker @ in_sender_id msg @ ''] '' @ in_content msg),
                   (''assistant'', out_content reply)])
        else (ag_sessions ag)
               (session_key msg \<mapsto>
                get_or_create (ag_sessions ag) (session_key msg)
                @ [(''user'', in_content msg), (''assistant'', out_content reply)]))"
proof (cases "in_channel msg = ''system''")
  case True
  with assms have sys: "process_system_message co cx ag msg = (Inr out, ag', calls)"
    by (simp add: process_message_def)
  show ?thesis
    by (rule process_system_message_cases [OF sys]) (auto simp: mk_outbound_def True)
next
  case False
  show ?thesis
    by (rule process_user_message_cases [OF assms False]) (auto simp: mk_outbound_def False)
qed

theorem turn_appends_user_then_assistant_witness:
  "process_message scripted_provider plain_context
      (agent_with [Inr calls_echo, Inr (answers ''4'')] 20) user_asks
   = (Inr (Some (mk_outbound ''cli'' ''direct'' ''4'')),
      (agent_with [Inr calls_echo, Inr (answers ''4'')] 20)
        \<lparr>ag_world := [],
         ag_sessions := [''cli:direct'' \<mapsto> [(''user'', ''2+2?''), (''assistant'', ''4'')]]\<rparr>,
      [Inr calls_echo, Inr (answers ''4'')])
   \<and> ag_sessions ((agent_with [Inr calls_echo, Inr (answers ''4'')] 20)
        \<lparr>ag_world := [],
         ag_sessions := [''cli:direct'' \<mapsto> [(''user'', ''2+2?''), (''assistant'', ''4'')]]\<rparr>)
       = (ag_sessions (agent_with [Inr calls_echo, Inr (answers ''4'')] 20))
           (''cli:direct'' \<mapsto> [] @ [(''user'', ''2+2?''), (''assistant'', ''4'')])"
proof -
  have run: "process_message scripted_provider plain_context
      (agent_with [Inr calls_echo, Inr (answers ''4'')] 20) user_asks
   = (Inr (Some (mk_outbound ''cli'' ''direct'' ''4'')),
      (agent_with [Inr calls_echo, Inr (answers ''4'')] 20)
        \<lparr>ag_world := [],
         ag_sessions := [''cli:direct'' \<mapsto> [(''user'', ''2+2?''), (''assistant'', ''4'')]]\<rparr>,
      [Inr calls_echo, Inr (answers ''4'')])"
    by (simp add: run_defs)
  from turn_appends_user_then_assistant [OF run] run show ?thesis
    by (simp add: agent_with_def user_asks_def session_key_def get_or_create_def mk_outbound_def)
qed

lemma run_consumes_inbound:
  "inbound (ag_bus (AgentLoop_run co cx n ag)) = drop n (inbound (ag_bus ag))"
proof (induction n arbitrary: ag)
  case 0
  then show ?case by simp
next
  case (Suc n)
  show ?case
  proof (cases "inbound (ag_bus ag)")
    case Nil
    with Suc.IH [of ag] show ?thesis by simp
  next
    case (Cons msg rest)
    let ?ag = "ag\<lparr>ag_bus := (ag_bus ag)\<lparr>inbound := rest\<rparr>\<rparr>"
    obtain r ag' calls where p: "process_message co cx ?ag msg = (r, ag', calls)"
      by (cases "process_message co cx ?ag msg") auto
    from process_message_turn [OF p] obtain sent where
      "ag_bus ag' = publish_all_outbound sent (ag_bus ?ag)" by blast
    then have "inbound (ag_bus ag') = rest"
      by (simp add: publish_all_outbound_fields)
    with p have "inbound (ag_bus (handle_inbound co cx ?ag msg)) = rest"
      by (auto simp: handle_inbound_def publish_outbound_def split: sum.splits option.splits)
    with Suc.IH [of "handle_inbound co cx ?ag msg"] Cons show ?thesis by simp
  qed
qed

text \<open>
  C4. When the turn of a subagent announcement raises, \<open>run\<close> addresses its error message
  to the channel \<open>system\<close> with the encoded chat id, whereas the reply of the same turn goes
  to the decoded origin: with the announcement for \<open>telegram:42\<close>, the reply is sent to
  \<open>telegram\<close>/\<open>42\<close> and the error to \<open>system\<close>/\<open>telegram:42\<close>.
\<close>

theorem error_reply_to_system_message:
  "outbound (ag_bus (handle_inbound scripted_provider plain_context
       (agent_with [Inr (answers ''all done'')] 20) subagent_reports))
     = [mk_outbound ''telegram'' ''42'' ''all done'']
   \<and> outbound (ag_bus (handle_inbound scripted_provider plain_context
       (agent_with [Inl (Exception ''boom'')] 20) subagent_reports))
     = [mk_outbound ''system'' ''telegram:42'' (error_prefix @ ''boom'')]"
  by (simp add: run_defs subagent_reports_def)

subsection \<open>Subagent manager\<close>

lemma run_subagent_try_raised_inbound:
  "run_subagent_try co mgr task_id task label og = (Inl e, mgr1, calls) \<Longrightarrow>
     inbound (sm_bus mgr1) = inbound (sm_bus mgr)"
  by (auto simp: run_subagent_try_def Let_def announce_result_def publish_all_outbound_fields
           split: prod.splits sum.splits)

lemmas subagent_run_defs = run_subagent_def run_subagent_try_def announce_result_def
  publish_inbound_def publish_all_outbound_def announce_chat_id_def manager_with_def
  scripted_provider_def subagent_messages_def tool_loop.simps has_tool_calls_def Let_def
  MessageBus_init_def calls_echo_def answers_def to_tool_call_dict_def

text \<open>
  C5. Running a subagent task never raises. When anything raised inside its \<open>try\<close> block
  (the provider or a tool), the task publishes one inbound message on the channel
  \<open>system\<close>, from sender \<open>subagent\<close>, with the encoded origin as chat id, whose content is
  the announcement built with the failure status text and the error text as result.
\<close>

theorem subagent_failure_is_announced:
  "fst (run_subagent co mgr task_id task label og) = Inr ()
   \<and> (\<forall>e mgr1 calls. run_subagent_try co mgr task_id task label og = (Inl e, mgr1, calls) \<longrightarrow>
        inbound (sm_bus (fst (snd (run_subagent co mgr task_id task label og))))
          = inbound (sm_bus mgr)
            @ [\<lparr>in_channel = ''system'', in_sender_id = ''subagent'',
                in_chat_id = origin_channel og @ '':'' @ origin_chat_id og,
                in_content = announce_part1 @ label @ announce_part2 @ status_text_failed
                   @ announce_part3 @ task @ announce_part4
                   @ (subagent_error_prefix @ str_exc e) @ announce_part5,
                in_media = []\<rparr>])"
proof -
  have a: "fst (run_subagent co mgr task_id task label og) = Inr ()"
    by (auto simp: run_subagent_def Let_def announce_result_def split: prod.splits sum.splits)
  have b: "inbound (sm_bus (fst (snd (run_subagent co mgr task_id task label og))))
          = inbound (sm_bus mgr)
            @ [\<lparr>in_channel = ''system'', in_sender_id = ''subagent'',
                in_chat_id = origin_channel og @ '':'' @ origin_chat_id og,
                in_content = announce_part1 @ label @ announce_part2 @ status_text_failed
                   @ announce_part3 @ task @ announce_part4
                   @ (subagent_error_prefix @ str_exc e) @ announce_part5,
                in_media = []\<rparr>]"
    if "run_subagent_try co mgr task_id task label og = (Inl e, mgr1, calls)" for e mgr1 calls
    using that run_subagent_try_raised_inbound [OF that]
    by (simp add: run_subagent_def Let_def announce_result_def publish_inbound_def announce_chat_id_def)
  from a b show ?thesis by blast
qed

theorem subagent_failure_is_announced_witness:
  "run_subagent_try scripted_provider (manager_with [Inr calls_echo, Inl (Exception ''boom'')])
      ''0a1b2c3d'' ''dig'' ''dig'' \<lparr>origin_channel = ''telegram'', origin_chat_id = ''42''\<rparr>
    = (Inl (Exception ''boom''),
       (manager_with [Inr calls_echo, Inl (Exception ''boom'')])\<lparr>sm_world := []\<rparr>,
       [Inr calls_echo, Inl (Exception ''boom'')])
   \<and> fst (run_subagent scripted_provider (manager_with [Inr calls_echo, Inl (Exception ''boom'')])
      ''0a1b2c3d'' ''dig'' ''dig'' \<lparr>origin_channel = ''telegram'', origin_chat_id = ''42''\<rparr>)
    = Inr ()
   \<and> inbound (sm_bus (fst (snd (run_subagent scripted_provider
        (manager_with [Inr calls_echo, Inl (Exception ''boom'')])
        ''0a1b2c3d'' ''dig'' ''dig'' \<lparr>origin_channel = ''telegram'', origin_chat_id = ''42''\<rparr>))))
    = [\<lparr>in_channel = ''system'', in_sender_id = ''subagent'', in_chat_id = ''telegram:42'',
        in_content = announce_part1 @ ''dig'' @ announce_part2 @ status_text_failed
           @ announce_part3 @ ''dig'' @ announce_part4
           @ (subagent_error_prefix @ ''boom'') @ announce_part5,
        in_media = []\<rparr>]"
proof -
  have run: "run_subagent_try scripted_provider
      (manager_with [Inr calls_echo, Inl (Exception ''boom'')])
      ''0a1b2c3d'' ''dig'' ''dig'' \<lparr>origin_channel = ''telegram'', origin_chat_id = ''42''\<rparr>
    = (Inl (Exception ''boom''),
       (manager_with [Inr calls_echo, Inl (Exception ''boom'')])\<lparr>sm_world := []\<rparr>,
       [Inr calls_echo, Inl (Exception ''boom'')])"
    by (simp add: subagent_run_defs)
  from subagent_failure_is_announced
         [of scripted_provider "manager_with [Inr calls_echo, Inl (Exception ''boom'')]"
             "''0a1b2c3d''" "''dig''" "''dig''"
             "\<lparr>origin_channel = ''telegram'', origin_chat_id = ''42''\<rparr>"]
       run
  show ?thesis
    by (simp add: manager_with_def MessageBus_init_def)
qed

lemma dom_register_all_aux:
  "dom (foldl (\<lambda>reg t. register d t reg) reg0 ts) = dom reg0 \<union> tool_name d ` set ts"
  by (induction ts arbitrary: reg0) (auto simp: register_def)

lemma dom_register_all: "dom (register_all d ts) = tool_name d ` set ts"
  by (simp add: register_all_def dom_register_all_aux ToolRegistry_init_def)

lemma run_subagent_calls:
  "int (length (snd (snd (run_subagent co mgr task_id task label og)))) \<le> 15"
proof -
  obtain r w calls sent where t: "tool_loop co (subagent_messages mgr)
        (register_all (declared_name co) (subagent_tool_list mgr)) (sm_model mgr) 15 0
        (build_messages (subagent_messages mgr) [] task None) (sm_world mgr) [] []
      = (r, w, calls, sent)"
    using prod_cases4 by blast
  from tool_loop_from_start(1) [OF t] have "int (length calls) \<le> 15" by simp
  moreover have "snd (snd (run_subagent co mgr task_id task label og)) = calls"
    using t by (auto simp: run_subagent_def run_subagent_try_def Let_def split: prod.splits sum.splits)
  ultimately show ?thesis by simp
qed

lemma handed_only_fields:
  "chat (handed_only reg co) messages tools = chat co messages reg"
  "execute (handed_only reg co) tools = execute co reg"
  "json_dumps (handed_only reg co) = json_dumps co"
  "declared_name (handed_only reg co) = declared_name co"
  by (simp_all add: handed_only_def)

lemma execute_tool_calls_handed_only:
  "execute_tool_calls (handed_only reg co) cx tools tcs m w sent
     = execute_tool_calls co cx reg tcs m w sent"
  by (induction tcs arbitrary: m w sent)
     (simp_all add: handed_only_fields split: prod.splits sum.splits)

lemma tool_loop_handed_only:
  "tool_loop (handed_only tools co) cx tools model N i m w calls sent
     = tool_loop co cx tools model N i m w calls sent"
proof (induction co cx tools model N i m w calls sent rule: tool_loop.induct)
  case (1 co cx tools model N i m w calls sent)
  show ?case
    using "1.IH"
    by (simp add: tool_loop.simps [of "handed_only tools co" cx tools model N i m w calls sent]
          tool_loop.simps [of co cx tools model N i m w calls sent]
          handed_only_fields execute_tool_calls_handed_only
        split: prod.splits sum.splits)
qed

text \<open>
  C8. Provided no tool class other than the message and the spawn tool declares the name
  \<open>message\<close> or \<open>spawn\<close>, the registry a subagent task builds for itself holds neither
  name after any number of its registrations; this registry and no other is what the task
  hands to every \<open>chat\<close> and \<open>execute\<close> call (the run is the same, whatever the
  collaborators, when they are made deaf to the registry handed and given this one); and
  the task makes at most 15 provider calls.
\<close>

theorem subagent_registry_and_bound:
  assumes "\<forall>t. tool_name (declared_name co) t \<in> {''message'', ''spawn''} \<longrightarrow> t \<in> {MessageTool, SpawnTool}"
  shows "(\<forall>k. ''message'' \<notin> dom (register_all (declared_name co) (take k (subagent_tool_list mgr)))
            \<and> ''spawn'' \<notin> dom (register_all (declared_name co) (take k (subagent_tool_list mgr))))
       \<and> run_subagent
           (handed_only (register_all (declared_name co) (subagent_tool_list mgr)) co)
           mgr task_id task label og
         = run_subagent co mgr task_id task label og
       \<and> length (snd (snd (run_subagent co mgr task_id task label og))) \<le> 15"
proof -
  have no: "MessageTool \<notin> set (subagent_tool_list mgr)" "SpawnTool \<notin> set (subagent_tool_list mgr)"
    by (simp_all add: subagent_tool_list_def)
  have "nm \<notin> dom (register_all (declared_name co) (take k (subagent_tool_list mgr)))"
    if "nm \<in> {''message'', ''spawn''}" for nm k
  proof
    assume "nm \<in> dom (register_all (declared_name co) (take k (subagent_tool_list mgr)))"
    then obtain t where t: "t \<in> set (take k (subagent_tool_list mgr))" "tool_name (declared_name co) t = nm"
      by (auto simp: dom_register_all)
    from t(1) have "t \<in> set (subagent_tool_list mgr)" by (rule in_set_takeD)
    moreover from t(2) that assms have "t \<in> {MessageTool, SpawnTool}" by blast
    ultimately show False using no by auto
  qed
  moreover have "run_subagent
           (handed_only (register_all (declared_name co) (subagent_tool_list mgr)) co)
           mgr task_id task label og
         = run_subagent co mgr task_id task label og"
    by (simp add: run_subagent_def run_subagent_try_def handed_only_fields tool_loop_handed_only)
  ultimately show ?thesis using run_subagent_calls [of co mgr task_id task label og] by simp
qed

theorem subagent_registry_and_bound_witness:
  "dom (register_all (declared_name scripted_provider)
         (subagent_tool_list (manager_with [Inr calls_echo, Inr (answers ''found'')])))
     = {''read_file'', ''write_file'', ''list_dir'', ''exec'', ''web_search'', ''web_fetch''}
   \<and> ''message'' \<notin> dom (register_all (declared_name scripted_provider)
                          (take 6 (subagent_tool_list (manager_with [Inr calls_echo, Inr (answers ''found'')]))))
   \<and> ''spawn'' \<notin> dom (register_all (declared_name scripted_provider)
                        (take 6 (subagent_tool_list (manager_with [Inr calls_echo, Inr (answers ''found'')]))))
   \<and> run_subagent
       (handed_only (register_all (declared_name scripted_provider)
          (subagent_tool_list (manager_with [Inr calls_echo, Inr (answers ''found'')])))
          scripted_provider)
       (manager_with [Inr calls_echo, Inr (answers ''found'')]) ''0a1b2c3d'' ''dig'' ''dig''
       \<lparr>origin_channel = ''telegram'', origin_chat_id = ''42''\<rparr>
     = run_subagent scripted_provider
       (manager_with [Inr calls_echo, Inr (answers ''found'')]) ''0a1b2c3d'' ''dig'' ''dig''
       \<lparr>origin_channel = ''telegram'', origin_chat_id = ''42''\<rparr>
   \<and> snd (snd (run_subagent scripted_provider
        (manager_with [Inr calls_echo, Inr (answers ''found'')]) ''0a1b2c3d'' ''dig'' ''dig''
        \<lparr>origin_channel = ''telegram'', origin_chat_id = ''42''\<rparr>))
     = [Inr calls_echo, Inr (answers ''found'')]
   \<and> length (snd (snd (run_subagent scripted_provider
        (manager_with [Inr calls_echo, Inr (answers ''found'')]) ''0a1b2c3d'' ''dig'' ''dig''
        \<lparr>origin_channel = ''telegram'', origin_chat_id = ''42''\<rparr>))) \<le> 15"
proof -
  have names: "\<forall>t. tool_name (declared_name scripted_provider) t \<in> {''message'', ''spawn''}
                 \<longrightarrow> t \<in> {MessageTool, SpawnTool}"
  proof (intro allI impI)
    fix t assume "tool_name (declared_name scripted_provider) t \<in> {''message'', ''spawn''}"
    then show "t \<in> {MessageTool, SpawnTool}"
      by (cases t) (simp_all add: scripted_provider_def example_names_def)
  qed
  have d: "dom (register_all (declared_name scripted_provider)
             (subagent_tool_list (manager_with [Inr calls_echo, Inr (answers ''found'')])))
     = {''read_file'', ''write_file'', ''list_dir'', ''exec'', ''web_search'', ''web_fetch''}"
    by (auto simp: dom_register_all subagent_tool_list_def scripted_provider_def example_names_def)
  have c: "snd (snd (run_subagent scripted_provider
        (manager_with [Inr calls_echo, Inr (answers ''found'')]) ''0a1b2c3d'' ''dig'' ''dig''
        \<lparr>origin_channel = ''telegram'', origin_chat_id = ''42''\<rparr>))
     = [Inr calls_echo, Inr (answers ''found'')]"
    by (simp add: subagent_run_defs)
  note t = subagent_registry_and_bound [OF names,
         of "manager_with [Inr calls_echo, Inr (answers ''found'')]" "''0a1b2c3d''" "''dig''" "''dig''"
         "\<lparr>origin_channel = ''telegram'', origin_chat_id = ''42''\<rparr>"]
  note k = conjunct1 [OF t, THEN spec, of 6]
  show ?thesis
    by (intro conjI) (rule d, rule conjunct1 [OF k], rule conjunct2 [OF k],
        rule conjunct1 [OF conjunct2 [OF t]], rule c, rule conjunct2 [OF conjunct2 [OF t]])
qed

lemma spawn_task_ids:
  "map st_task_id (sm_scheduled (snd (spawn u task label ch cid mgr)))
     = map st_task_id (sm_scheduled mgr) @ [py_prefix 8 u]"
  by (simp add: spawn_def Let_def)

lemma spawn_all_task_ids:
  "map st_task_id (sm_scheduled (spawn_all reqs mgr))
     = map st_task_id (sm_scheduled mgr) @ map (\<lambda>rq. py_prefix 8 (rq_uuid4 rq)) reqs"
  by (induction reqs arbitrary: mgr) (simp_all add: spawn_task_ids)

text \<open>
  C9. Two \<open>spawn\<close> calls whose UUID texts share their first eight characters allocate the
  same task id while both tasks are active; the second entry replaces the first in
  \<open>_running_tasks\<close>.
\<close>

theorem spawn_task_id_collision:
  "length (sm_scheduled (spawn_all colliding_requests (manager_with []))) = 2
   \<and> map st_task_id (sm_scheduled (spawn_all colliding_requests (manager_with [])))
       = [''deadbeef'', ''deadbeef'']
   \<and> \<not> distinct (map st_task_id (sm_scheduled (spawn_all colliding_requests (manager_with []))))
   \<and> dom (sm_running_tasks (spawn_all colliding_requests (manager_with []))) = {''deadbeef''}"
  by (simp add: colliding_requests_def manager_with_def spawn_def Let_def utf8_continuation_def)

text \<open>
  C9 (amended). Every \<open>spawn\<close> call allocates as task id the first eight characters of the
  UUID text it draws, so after any sequence of \<open>spawn\<close> calls with no task finishing in
  between, the task ids of the active tasks are distinct exactly when the ids already
  active and those eight-character prefixes are.
\<close>

theorem spawn_task_ids_distinct_iff:
  "map st_task_id (sm_scheduled (spawn_all reqs mgr))
     = map st_task_id (sm_scheduled mgr) @ map (\<lambda>rq. py_prefix 8 (rq_uuid4 rq)) reqs
   \<and> (distinct (map st_task_id (sm_scheduled (spawn_all reqs mgr)))
        = distinct (map st_task_id (sm_scheduled mgr) @ map (\<lambda>rq. py_prefix 8 (rq_uuid4 rq)) reqs))"
  by (simp add: spawn_all_task_ids)

theorem spawn_task_ids_distinct_iff_witness:
  "map st_task_id (sm_scheduled (spawn_all separate_requests (manager_with [])))
     = [''0a1b2c3d'', ''4e5f6a7b'']
   \<and> distinct (map st_task_id (sm_scheduled (spawn_all separate_requests (manager_with []))))
   \<and> dom (sm_running_tasks (spawn_all separate_requests (manager_with [])))
       = {''0a1b2c3d'', ''4e5f6a7b''}"
proof -
  have d: "dom (sm_running_tasks (spawn_all separate_requests (manager_with [])))
       = {''0a1b2c3d'', ''4e5f6a7b''}"
    by (auto simp: separate_requests_def manager_with_def spawn_def Let_def utf8_continuation_def)
  from spawn_task_ids_distinct_iff [of separate_requests "manager_with []"] d show ?thesis
    by (simp add: separate_requests_def manager_with_def utf8_continuation_def)
qed

subsection \<open>LiteLLM provider\<close>







end
